theory Spec2Isabelle
  imports Main "HOL-Library.Word" "HOL-Library.Sublist"
begin

section \<open>Configuration objects of kafka.conf\<close>

text \<open>
  The four sorcery object types of \<^verbatim>\<open>res_kafka\<close>. The field \<open>*_oid\<close> is the
  object's sorcery id (\<^verbatim>\<open>ast_sorcery_object_get_id\<close>); every other field is a field of
  the C struct, under the struct's name where the name is free (the field
  \<^verbatim>\<open>cluster_id\<close> occurs in two structs and carries the struct's name in front).
\<close>

record sorcery_kafka_cluster =
  cluster_oid :: string
  brokers :: string
  security_protocol :: string
  sasl_mechanism :: string
  sasl_username :: string
  sasl_password :: string
  client_id :: string
  port :: "32 word"
  ssl :: "32 word"
  cluster :: "nat option"

record sorcery_kafka_producer =
  producer_oid :: string
  producer_cluster_id :: string

record sorcery_kafka_consumer =
  consumer_oid :: string
  consumer_cluster_id :: string

record sorcery_kafka_topic =
  topic_oid :: string
  topic :: string
  producer_id :: string
  consumer_id :: string

text \<open>What the configuration registry holds once kafka.conf is loaded.\<close>

record registry =
  clusters :: "sorcery_kafka_cluster list"
  producers :: "sorcery_kafka_producer list"
  consumers :: "sorcery_kafka_consumer list"
  topics :: "sorcery_kafka_topic list"

definition KAFKA_CLUSTER :: string where "KAFKA_CLUSTER = ''cluster''"
definition KAFKA_TOPIC :: string where "KAFKA_TOPIC = ''topic''"
definition KAFKA_PRODUCER :: string where "KAFKA_PRODUCER = ''producer''"
definition KAFKA_CONSUMER :: string where "KAFKA_CONSUMER = ''consumer''"

section \<open>The external collaborators\<close>

text \<open>
  librdkafka, astobj2 and sorcery are not part of the module. Every call into them is
  recorded as an event, and what a call answers is read from an environment: a call whose
  answer depends on the outside world (memory, the network) is asked with the number of
  calls made so far, so the same call may succeed once and fail later;
  \<^verbatim>\<open>rd_kafka_conf_set\<close> answers from the configuration object, the property name and
  the value it is given. A configuration object \<^verbatim>\<open>rd_kafka_conf_t\<close> is the list of
  the properties set on it, in the order they were set.
\<close>

type_synonym rd_kafka_conf = "(string \<times> string) list"

datatype rd_kafka_type = RD_KAFKA_PRODUCER | RD_KAFKA_CONSUMER

datatype log_level = LOG_NOTICE | LOG_WARNING | LOG_ERROR

datatype event =
    Rd_kafka_conf_new bool
  | Rd_kafka_conf_set rd_kafka_conf string string "string option"
  | Rd_kafka_conf_destroy rd_kafka_conf
  | Rd_kafka_new rd_kafka_type rd_kafka_conf "nat option"
  | Rd_kafka_destroy nat
  | Rd_kafka_topic_conf_new bool
  | Rd_kafka_topic_conf_set_opaque nat
  | Rd_kafka_topic_conf_destroy
  | Rd_kafka_topic_new nat string "nat option"
  | Rd_kafka_topic_destroy nat
  | Rd_kafka_produce nat int int string nat bool
  | Rd_kafka_flush nat int int
  | Ao2_alloc "nat option"
  | Ao2_ref nat int
  | Ast_log log_level string "string list"
  | Ast_sorcery_open bool
  | Ast_sorcery_apply_default string string bool
  | Ast_sorcery_object_register string bool
  | Ast_sorcery_object_field_register string string string
  | Ast_sorcery_observer_add string bool
  | Ast_sorcery_observer_remove string
  | Ast_sorcery_load
  | Ast_sorcery_reload
  | Ast_sorcery_unref
  | Ast_sorcery_retrieve_by_fields string "(string \<times> string) option" bool
  | Ast_cli_register_multiple
  | Ast_cli_unregister_multiple

record env =
  rd_kafka_conf_new_ok :: "nat \<Rightarrow> bool"
  rd_kafka_conf_set_err :: "rd_kafka_conf \<Rightarrow> string \<Rightarrow> string \<Rightarrow> string option"
  rd_kafka_new_err :: "nat \<Rightarrow> rd_kafka_type \<Rightarrow> rd_kafka_conf \<Rightarrow> string option"
  rd_kafka_topic_conf_new_ok :: "nat \<Rightarrow> bool"
  rd_kafka_topic_new_err :: "nat \<Rightarrow> string \<Rightarrow> string option"
  rd_kafka_produce_err :: "nat \<Rightarrow> string option"
  rd_kafka_flush_resp :: "nat \<Rightarrow> int"
  rd_kafka_err2str :: "int \<Rightarrow> string"
  ao2_alloc_ok :: "nat \<Rightarrow> bool"
  ast_sorcery_retrieve_ok :: "nat \<Rightarrow> bool"
  ast_sorcery_open_ok :: bool
  ast_sorcery_apply_default_ok :: "string \<Rightarrow> bool"
  ast_sorcery_object_register_ok :: "string \<Rightarrow> bool"
  ast_sorcery_observer_add_ok :: "string \<Rightarrow> bool"

section \<open>The state of the process\<close>

text \<open>
  The two \<^verbatim>\<open>ao2\<close> object types of the module, each holding one library handle that
  may be \<^verbatim>\<open>NULL\<close>; \<^verbatim>\<open>ao2_alloc\<close> hands out zeroed memory.
\<close>

datatype ao2_body = Kafka_producer "nat option" | Kafka_producer_topic "nat option"

record ao2_object =
  refcount :: int
  body :: ao2_body

record kstate =
  heap :: "nat \<Rightarrow> ao2_object option"
  next_ptr :: nat
  live_rd_kafka :: "nat list"
  live_rd_kafka_topic :: "nat list"
  kafka_sorcery :: "registry option"
  trace :: "event list"

text \<open>
  The state holds the \<^verbatim>\<open>ao2\<close> objects by address, the next address to hand out (records
  and library handles share it, so every pointer is fresh), the library handles that were
  created and not yet destroyed, the module's one registry \<^verbatim>\<open>kafka_sorcery\<close> (\<open>None\<close> is
  \<^verbatim>\<open>NULL\<close>), and the trace of the calls made so far. The position of a call in the trace
  is its \<open>tick\<close>.

  Reading a field through a \<^verbatim>\<open>NULL\<close> pointer, or handing the library a \<^verbatim>\<open>NULL\<close> handle,
  is undefined in C; the model stops there with a fault and the state reached.

  Left out: \<^verbatim>\<open>ast_debug\<close> lines, which change nothing; the reference counts of the
  registry's own objects, which every loop takes and gives back in pairs; and a failure of
  \<^verbatim>\<open>ast_variable_new\<close> for a retrieval filter.
\<close>

datatype fault = Null_dereference

datatype 'a outcome = Done 'a kstate | Fault fault kstate

definition emit :: "event \<Rightarrow> kstate \<Rightarrow> kstate" where
  "emit e s = s\<lparr>trace := trace s @ [e]\<rparr>"

definition tick :: "kstate \<Rightarrow> nat" where
  "tick s = length (trace s)"

definition ast_log :: "log_level \<Rightarrow> string \<Rightarrow> string list \<Rightarrow> kstate \<Rightarrow> kstate" where
  "ast_log lvl fmt args s = emit (Ast_log lvl fmt args) s"

subsection \<open>librdkafka\<close>

definition rd_kafka_conf_new :: "env \<Rightarrow> kstate \<Rightarrow> rd_kafka_conf option \<times> kstate" where
  "rd_kafka_conf_new e s =
     (if rd_kafka_conf_new_ok e (tick s) then (Some [], emit (Rd_kafka_conf_new True) s)
      else (None, emit (Rd_kafka_conf_new False) s))"

definition rd_kafka_conf_set ::
  "env \<Rightarrow> rd_kafka_conf \<Rightarrow> string \<Rightarrow> string \<Rightarrow> kstate \<Rightarrow> (string + rd_kafka_conf) \<times> kstate" where
  "rd_kafka_conf_set e config name val s =
     (case rd_kafka_conf_set_err e config name val of
        Some errstr \<Rightarrow> (Inl errstr, emit (Rd_kafka_conf_set config name val (Some errstr)) s)
      | None \<Rightarrow> (Inr (config @ [(name, val)]), emit (Rd_kafka_conf_set config name val None) s))"

definition rd_kafka_conf_destroy :: "rd_kafka_conf \<Rightarrow> kstate \<Rightarrow> kstate" where
  "rd_kafka_conf_destroy config s = emit (Rd_kafka_conf_destroy config) s"

definition rd_kafka_new ::
  "env \<Rightarrow> rd_kafka_type \<Rightarrow> rd_kafka_conf \<Rightarrow> kstate \<Rightarrow> (string + nat) \<times> kstate" where
  "rd_kafka_new e ty config s =
     (case rd_kafka_new_err e (tick s) ty config of
        Some errstr \<Rightarrow> (Inl errstr, emit (Rd_kafka_new ty config None) s)
      | None \<Rightarrow>
          (Inr (next_ptr s),
           emit (Rd_kafka_new ty config (Some (next_ptr s)))
             (s\<lparr>next_ptr := Suc (next_ptr s), live_rd_kafka := next_ptr s # live_rd_kafka s\<rparr>)))"

definition rd_kafka_destroy :: "nat \<Rightarrow> kstate \<Rightarrow> kstate" where
  "rd_kafka_destroy rk s =
     emit (Rd_kafka_destroy rk) (s\<lparr>live_rd_kafka := removeAll rk (live_rd_kafka s)\<rparr>)"

definition rd_kafka_topic_conf_new :: "env \<Rightarrow> kstate \<Rightarrow> bool \<times> kstate" where
  "rd_kafka_topic_conf_new e s =
     (if rd_kafka_topic_conf_new_ok e (tick s) then (True, emit (Rd_kafka_topic_conf_new True) s)
      else (False, emit (Rd_kafka_topic_conf_new False) s))"

definition rd_kafka_topic_conf_set_opaque :: "nat \<Rightarrow> kstate \<Rightarrow> kstate" where
  "rd_kafka_topic_conf_set_opaque opaque s = emit (Rd_kafka_topic_conf_set_opaque opaque) s"

definition rd_kafka_topic_conf_destroy :: "kstate \<Rightarrow> kstate" where
  "rd_kafka_topic_conf_destroy s = emit Rd_kafka_topic_conf_destroy s"

definition rd_kafka_topic_new ::
  "env \<Rightarrow> nat \<Rightarrow> string \<Rightarrow> kstate \<Rightarrow> (string + nat) \<times> kstate" where
  "rd_kafka_topic_new e rk name s =
     (case rd_kafka_topic_new_err e (tick s) name of
        Some errstr \<Rightarrow> (Inl errstr, emit (Rd_kafka_topic_new rk name None) s)
      | None \<Rightarrow>
          (Inr (next_ptr s),
           emit (Rd_kafka_topic_new rk name (Some (next_ptr s)))
             (s\<lparr>next_ptr := Suc (next_ptr s),
                live_rd_kafka_topic := next_ptr s # live_rd_kafka_topic s\<rparr>)))"

definition rd_kafka_topic_destroy :: "nat \<Rightarrow> kstate \<Rightarrow> kstate" where
  "rd_kafka_topic_destroy rkt s =
     emit (Rd_kafka_topic_destroy rkt)
       (s\<lparr>live_rd_kafka_topic := removeAll rkt (live_rd_kafka_topic s)\<rparr>)"

definition RD_KAFKA_PARTITION_UA :: int where "RD_KAFKA_PARTITION_UA = - 1"
definition RD_KAFKA_MSG_F_COPY :: int where "RD_KAFKA_MSG_F_COPY = 2"
definition RD_KAFKA_RESP_ERR_NO_ERROR :: int where "RD_KAFKA_RESP_ERR_NO_ERROR = 0"

text \<open>
  \<^verbatim>\<open>rd_kafka_produce\<close> answers 0, or -1 with the library's last error set; the model
  answers the text of that error (\<^verbatim>\<open>rd_kafka_err2str(rd_kafka_last_error())\<close>).
\<close>

definition rd_kafka_produce ::
  "env \<Rightarrow> nat \<Rightarrow> int \<Rightarrow> int \<Rightarrow> string \<Rightarrow> nat \<Rightarrow> kstate \<Rightarrow> string option \<times> kstate" where
  "rd_kafka_produce e rkt prt msgflags payload len s =
     (rd_kafka_produce_err e (tick s),
      emit (Rd_kafka_produce rkt prt msgflags payload len
              (rd_kafka_produce_err e (tick s) = None)) s)"

definition rd_kafka_flush :: "env \<Rightarrow> nat \<Rightarrow> int \<Rightarrow> kstate \<Rightarrow> int \<times> kstate" where
  "rd_kafka_flush e rk timeout_ms s =
     (rd_kafka_flush_resp e (tick s),
      emit (Rd_kafka_flush rk timeout_ms (rd_kafka_flush_resp e (tick s))) s)"

subsection \<open>astobj2\<close>

text \<open>
  An \<^verbatim>\<open>ao2\<close> object is born with one reference. \<^verbatim>\<open>ao2_ref\<close> adds its delta;
  when the count reaches zero the object's destructor runs and the object is freed. The
  destructor is the one given to \<^verbatim>\<open>ao2_alloc\<close>, here read from the kind of the
  object. On a pointer that is no live object, and on a count that would go below
  zero, astobj2 logs and changes nothing.
\<close>

definition ao2_alloc :: "env \<Rightarrow> ao2_body \<Rightarrow> kstate \<Rightarrow> nat option \<times> kstate" where
  "ao2_alloc e b s =
     (if ao2_alloc_ok e (tick s) then
        (Some (next_ptr s),
         emit (Ao2_alloc (Some (next_ptr s)))
           (s\<lparr>heap := (heap s)(next_ptr s \<mapsto> \<lparr>refcount = 1, body = b\<rparr>),
              next_ptr := Suc (next_ptr s)\<rparr>))
      else (None, emit (Ao2_alloc None) s))"

definition kafka_producer_destructor :: "nat option \<Rightarrow> kstate \<Rightarrow> kstate" where
  "kafka_producer_destructor rd_kafka s =
     (case rd_kafka of None \<Rightarrow> s | Some rk \<Rightarrow> rd_kafka_destroy rk s)"

definition kafka_producer_topic_destructor :: "nat option \<Rightarrow> kstate \<Rightarrow> kstate" where
  "kafka_producer_topic_destructor rd_kafka_topic s =
     (case rd_kafka_topic of None \<Rightarrow> s | Some rkt \<Rightarrow> rd_kafka_topic_destroy rkt s)"

definition destructor :: "ao2_body \<Rightarrow> kstate \<Rightarrow> kstate" where
  "destructor b s =
     (case b of
        Kafka_producer rd_kafka \<Rightarrow> kafka_producer_destructor rd_kafka s
      | Kafka_producer_topic rd_kafka_topic \<Rightarrow> kafka_producer_topic_destructor rd_kafka_topic s)"

definition ao2_ref :: "nat \<Rightarrow> int \<Rightarrow> kstate \<Rightarrow> kstate" where
  "ao2_ref p delta s =
     (case heap s p of
        None \<Rightarrow> emit (Ao2_ref p delta) s
      | Some obj \<Rightarrow>
          (if 0 < refcount obj + delta then
             emit (Ao2_ref p delta)
               (s\<lparr>heap := (heap s)(p \<mapsto> obj\<lparr>refcount := refcount obj + delta\<rparr>)\<rparr>)
           else if refcount obj + delta < 0 then emit (Ao2_ref p delta) s
           else destructor (body obj)
                  (emit (Ao2_ref p delta) (s\<lparr>heap := (heap s)(p := None)\<rparr>))))"

definition ao2_cleanup :: "nat option \<Rightarrow> kstate \<Rightarrow> kstate" where
  "ao2_cleanup p s = (case p of None \<Rightarrow> s | Some q \<Rightarrow> ao2_ref q (- 1) s)"

definition set_body :: "nat \<Rightarrow> ao2_body \<Rightarrow> kstate \<Rightarrow> kstate" where
  "set_body p b s =
     (case heap s p of
        None \<Rightarrow> s
      | Some obj \<Rightarrow> s\<lparr>heap := (heap s)(p \<mapsto> obj\<lparr>body := b\<rparr>)\<rparr>)"

subsection \<open>sorcery\<close>

text \<open>
  A retrieval answers a container of the objects that match, in the registry's order, or
  \<^verbatim>\<open>NULL\<close>. The caller hands over the matching objects of the type it asks for.
\<close>

definition ast_sorcery_retrieve_by_fields ::
  "env \<Rightarrow> string \<Rightarrow> (string \<times> string) option \<Rightarrow> 'a list \<Rightarrow> kstate \<Rightarrow> 'a list option \<times> kstate" where
  "ast_sorcery_retrieve_by_fields e ty flds matching s =
     (if ast_sorcery_retrieve_ok e (tick s)
      then (Some matching, emit (Ast_sorcery_retrieve_by_fields ty flds True) s)
      else (None, emit (Ast_sorcery_retrieve_by_fields ty flds False) s))"

section \<open>build_rdkafka_cluster_config\<close>

definition build_rdkafka_cluster_config ::
  "env \<Rightarrow> sorcery_kafka_cluster \<Rightarrow> kstate \<Rightarrow> rd_kafka_conf option \<times> kstate" where
  "build_rdkafka_cluster_config e cl s =
     (case rd_kafka_conf_new e s of
        (None, s1) \<Rightarrow>
          (None, ast_log LOG_ERROR
             ''Kafka cluster %s: unable to create configuration object\<newline>'' [cluster_oid cl] s1)
      | (Some config, s1) \<Rightarrow>
     (case rd_kafka_conf_set e config ''metadata.broker.list'' (brokers cl) s1 of
        (Inl errstr, s2) \<Rightarrow>
          (None, rd_kafka_conf_destroy config (ast_log LOG_ERROR
             ''Kafka cluster %s: unable to set bootstrap brokers because %s\<newline>''
             [cluster_oid cl, errstr] s2))
      | (Inr config, s2) \<Rightarrow>
     (case rd_kafka_conf_set e config ''security.protocol'' (security_protocol cl) s2 of
        (Inl errstr, s3) \<Rightarrow>
          (None, rd_kafka_conf_destroy config (ast_log LOG_ERROR
             ''Kafka cluster %s: unable to set security protocol because %s\<newline>''
             [cluster_oid cl, errstr] s3))
      | (Inr config, s3) \<Rightarrow>
     (case rd_kafka_conf_set e config ''sasl.mechanism'' (sasl_mechanism cl) s3 of
        (Inl errstr, s4) \<Rightarrow>
          (None, rd_kafka_conf_destroy config (ast_log LOG_ERROR
             ''Kafka cluster %s: unable to set SASL mechanism because %s\<newline>''
             [cluster_oid cl, errstr] s4))
      | (Inr config, s4) \<Rightarrow>
     (case rd_kafka_conf_set e config ''sasl.username'' (sasl_username cl) s4 of
        (Inl errstr, s5) \<Rightarrow>
          (None, rd_kafka_conf_destroy config (ast_log LOG_ERROR
             ''Kafka cluster %s: unable to set SASL username because %s\<newline>''
             [cluster_oid cl, errstr] s5))
      | (Inr config, s5) \<Rightarrow>
     (case rd_kafka_conf_set e config ''sasl.password'' (sasl_password cl) s5 of
        (Inl errstr, s6) \<Rightarrow>
          (None, rd_kafka_conf_destroy config (ast_log LOG_ERROR
             ''Kafka cluster %s: unable to set SASL password because %s\<newline>''
             [cluster_oid cl, errstr] s6))
      | (Inr config, s6) \<Rightarrow> (Some config, s6)))))))"

section \<open>Producers and their topics\<close>

text \<open>
  Reading \<^verbatim>\<open>producer->rd_kafka\<close> and \<^verbatim>\<open>topic->rd_kafka_topic\<close>: the handle
  stored in the object, \<^verbatim>\<open>NULL\<close> when there is none.

  In \<^verbatim>\<open>new_kafka_producer_topic\<close> the assignment \<^verbatim>\<open>topic->rd_kafka_topic = NULL\<close>
  writes to the record just allocated, and the assignment of what
  \<^verbatim>\<open>rd_kafka_topic_new\<close> returned is the \<open>set_body\<close> of either branch. In
  \<^verbatim>\<open>process_producer_topic\<close> the state after the produce call, with the error line when
  producing failed, is written out where it is used. \<^verbatim>\<open>rd_kafka_produce\<close> is given no
  key and no opaque (\<^verbatim>\<open>NULL, 0, NULL\<close>).
\<close>

definition producer_rd_kafka :: "nat \<Rightarrow> kstate \<Rightarrow> nat option" where
  "producer_rd_kafka p s =
     (case heap s p of
        None \<Rightarrow> None
      | Some obj \<Rightarrow> (case body obj of Kafka_producer rk \<Rightarrow> rk | Kafka_producer_topic _ \<Rightarrow> None))"

definition topic_rd_kafka_topic :: "nat \<Rightarrow> kstate \<Rightarrow> nat option" where
  "topic_rd_kafka_topic p s =
     (case heap s p of
        None \<Rightarrow> None
      | Some obj \<Rightarrow> (case body obj of Kafka_producer_topic rkt \<Rightarrow> rkt | Kafka_producer _ \<Rightarrow> None))"

definition new_kafka_producer ::
  "env \<Rightarrow> sorcery_kafka_cluster \<Rightarrow> sorcery_kafka_producer \<Rightarrow> kstate \<Rightarrow> nat option \<times> kstate" where
  "new_kafka_producer e sorcery_cluster sorcery_producer s =
     (case build_rdkafka_cluster_config e sorcery_cluster s of
        (None, s1) \<Rightarrow> (None, s1)
      | (Some config, s1) \<Rightarrow>
     (case ao2_alloc e (Kafka_producer None) s1 of
        (None, s2) \<Rightarrow>
          (None, ao2_cleanup None (rd_kafka_conf_destroy config (ast_log LOG_ERROR
             ''Kafka cluster '%s': Unable to create producer '%s' because Out of memory\<newline>''
             [cluster_oid sorcery_cluster, producer_oid sorcery_producer] s2)))
      | (Some producer, s2) \<Rightarrow>
     (case rd_kafka_new e RD_KAFKA_PRODUCER config s2 of
        (Inl errstr, s3) \<Rightarrow>
          (None, ao2_cleanup (Some producer) (rd_kafka_conf_destroy config (ast_log LOG_ERROR
             ''Kafka cluster '%s': unable to create producer '%s' because %s\<newline>''
             [cluster_oid sorcery_cluster, producer_oid sorcery_producer, errstr]
             (set_body producer (Kafka_producer None) s3))))
      | (Inr rk, s3) \<Rightarrow> (Some producer, set_body producer (Kafka_producer (Some rk)) s3))))"

definition new_kafka_producer_topic ::
  "env \<Rightarrow> nat \<Rightarrow> sorcery_kafka_topic \<Rightarrow> kstate \<Rightarrow> (nat option) outcome" where
  "new_kafka_producer_topic e producer sorcery_topic s =
     (case ao2_alloc e (Kafka_producer_topic None) s of
        (None, s1) \<Rightarrow>
          Done None (ast_log LOG_ERROR
            ''Out of memory while create producer topic '%s'\<newline>'' [topic_oid sorcery_topic] s1)
      | (Some tp, s1) \<Rightarrow>
     (case rd_kafka_topic_conf_new e (set_body tp (Kafka_producer_topic None) s1) of
        (False, s2) \<Rightarrow>
          Done None (ao2_ref tp (- 1) (ast_log LOG_ERROR
            ''Unable to create config for producer topic '%s'\<newline>'' [topic_oid sorcery_topic] s2))
      | (True, s2) \<Rightarrow>
     (case producer_rd_kafka producer
             (ao2_ref tp 1 (rd_kafka_topic_conf_set_opaque tp s2)) of
        None \<Rightarrow> Fault Null_dereference (ao2_ref tp 1 (rd_kafka_topic_conf_set_opaque tp s2))
      | Some rk \<Rightarrow>
     (case rd_kafka_topic_new e rk (topic sorcery_topic)
             (ao2_ref tp 1 (rd_kafka_topic_conf_set_opaque tp s2)) of
        (Inl errstr, s3) \<Rightarrow>
          Done None
            (ao2_ref tp (- 1) (ao2_ref tp (- 1) (rd_kafka_topic_conf_destroy (ast_log LOG_ERROR
               ''Unable to create producer topic '%s' because %s\<newline>''
               [topic_oid sorcery_topic, errstr]
               (set_body tp (Kafka_producer_topic None) s3)))))
      | (Inr rkt, s3) \<Rightarrow>
          Done (Some tp) (set_body tp (Kafka_producer_topic (Some rkt)) s3)))))"

definition process_producer_topic ::
  "env \<Rightarrow> nat \<Rightarrow> sorcery_kafka_topic \<Rightarrow> kstate \<Rightarrow> unit outcome" where
  "process_producer_topic e producer sorcery_topic s =
     (case new_kafka_producer_topic e producer sorcery_topic s of
        Fault f s1 \<Rightarrow> Fault f s1
      | Done None s1 \<Rightarrow> Fault Null_dereference s1
      | Done (Some tp) s1 \<Rightarrow>
     (case topic_rd_kafka_topic tp s1 of
        None \<Rightarrow> Fault Null_dereference s1
      | Some rkt \<Rightarrow>
     (case rd_kafka_produce e rkt RD_KAFKA_PARTITION_UA RD_KAFKA_MSG_F_COPY ''test'' 4 s1 of
        (produced, s2) \<Rightarrow>
     (case producer_rd_kafka producer
             (case produced of
                None \<Rightarrow> s2
              | Some errstr \<Rightarrow> ast_log LOG_ERROR
                  ''Unable to produce message producer topic '%s' because %s\<newline>''
                  [topic_oid sorcery_topic, errstr] s2) of
        None \<Rightarrow>
          Fault Null_dereference
            (case produced of
               None \<Rightarrow> s2
             | Some errstr \<Rightarrow> ast_log LOG_ERROR
                 ''Unable to produce message producer topic '%s' because %s\<newline>''
                 [topic_oid sorcery_topic, errstr] s2)
      | Some rk \<Rightarrow>
     (case rd_kafka_flush e rk 10000
             (case produced of
                None \<Rightarrow> s2
              | Some errstr \<Rightarrow> ast_log LOG_ERROR
                  ''Unable to produce message producer topic '%s' because %s\<newline>''
                  [topic_oid sorcery_topic, errstr] s2) of
        (response, s3) \<Rightarrow>
          Done ()
            (ao2_cleanup (Some tp)
               (if RD_KAFKA_RESP_ERR_NO_ERROR = response
                then ast_log LOG_ERROR ''Kafka producer topic %s got error: %s\<newline>''
                       [topic_oid sorcery_topic, rd_kafka_err2str e response] s3
                else s3)))))))"

fun process_producer_topics ::
  "env \<Rightarrow> nat \<Rightarrow> sorcery_kafka_topic list \<Rightarrow> kstate \<Rightarrow> unit outcome" where
  "process_producer_topics e producer [] s = Done () s"
| "process_producer_topics e producer (sorcery_topic # found) s =
     (case process_producer_topic e producer sorcery_topic s of
        Fault f s1 \<Rightarrow> Fault f s1
      | Done u s1 \<Rightarrow> process_producer_topics e producer found s1)"

definition process_producer ::
  "env \<Rightarrow> registry \<Rightarrow> sorcery_kafka_cluster \<Rightarrow> sorcery_kafka_producer \<Rightarrow> kstate \<Rightarrow> int outcome" where
  "process_producer e reg sorcery_cluster sorcery_producer s =
     (case ast_sorcery_retrieve_by_fields e KAFKA_TOPIC
             (Some (''producer'', producer_oid sorcery_producer))
             (filter (\<lambda>t. producer_id t = producer_oid sorcery_producer) (topics reg)) s of
        (None, s1) \<Rightarrow>
          Done 0 (ast_log LOG_WARNING
            ''Unable to retrieve topics from producer %s at cluster %s\<newline>''
            [producer_oid sorcery_producer, cluster_oid sorcery_cluster] s1)
      | (Some found, s1) \<Rightarrow>
          (if found \<noteq> [] then
             (case new_kafka_producer e sorcery_cluster sorcery_producer s1 of
                (None, s2) \<Rightarrow> Done (- 1) s2
              | (Some producer, s2) \<Rightarrow>
                  (case process_producer_topics e producer found s2 of
                     Fault f s3 \<Rightarrow> Fault f s3
                   | Done u s3 \<Rightarrow> Done 0 (ao2_ref producer (- 1) s3)))
           else Done 0 s1))"

fun process_producers ::
  "env \<Rightarrow> registry \<Rightarrow> sorcery_kafka_cluster \<Rightarrow> sorcery_kafka_producer list \<Rightarrow> kstate
     \<Rightarrow> unit outcome" where
  "process_producers e reg cl [] s = Done () s"
| "process_producers e reg cl (producer # found) s =
     (case process_producer e reg cl producer s of
        Fault f s1 \<Rightarrow> Fault f s1
      | Done rc s1 \<Rightarrow> process_producers e reg cl found s1)"

section \<open>Consumers\<close>

text \<open>\<^verbatim>\<open>process_consumer_topic\<close> writes a debug line and does nothing else.\<close>

definition process_consumer_topic ::
  "sorcery_kafka_cluster \<Rightarrow> sorcery_kafka_consumer \<Rightarrow> sorcery_kafka_topic \<Rightarrow> kstate \<Rightarrow> kstate" where
  "process_consumer_topic sorcery_cluster sorcery_consumer sorcery_topic s = s"

definition process_consumer ::
  "env \<Rightarrow> registry \<Rightarrow> sorcery_kafka_cluster \<Rightarrow> sorcery_kafka_consumer \<Rightarrow> kstate \<Rightarrow> int \<times> kstate" where
  "process_consumer e reg cl consumer s =
     (case build_rdkafka_cluster_config e cl s of
        (None, s1) \<Rightarrow> (- 1, s1)
      | (Some config, s1) \<Rightarrow>
     (case ast_sorcery_retrieve_by_fields e KAFKA_TOPIC
             (Some (''consumer'', consumer_oid consumer))
             (filter (\<lambda>t. consumer_id t = consumer_oid consumer) (topics reg))
             (rd_kafka_conf_destroy config s1) of
        (None, s2) \<Rightarrow>
          (0, ast_log LOG_WARNING
            ''Unable to retrieve topics from consumer %s at cluster %s\<newline>''
            [consumer_oid consumer, cluster_oid cl] s2)
      | (Some found, s2) \<Rightarrow>
          (if found \<noteq> [] then
             (case build_rdkafka_cluster_config e cl s2 of
                (None, s3) \<Rightarrow> (- 1, s3)
              | (Some config2, s3) \<Rightarrow>
                  (0, fold (process_consumer_topic cl consumer) found
                        (rd_kafka_conf_destroy config2 s3)))
           else (0, s2))))"

fun process_consumers ::
  "env \<Rightarrow> registry \<Rightarrow> sorcery_kafka_cluster \<Rightarrow> sorcery_kafka_consumer list \<Rightarrow> kstate \<Rightarrow> kstate" where
  "process_consumers e reg cl [] s = s"
| "process_consumers e reg cl (consumer # found) s =
     process_consumers e reg cl found (snd (process_consumer e reg cl consumer s))"

section \<open>Clusters\<close>

definition process_cluster ::
  "env \<Rightarrow> registry \<Rightarrow> sorcery_kafka_cluster \<Rightarrow> kstate \<Rightarrow> unit outcome" where
  "process_cluster e reg cl s =
     (case (case ast_sorcery_retrieve_by_fields e KAFKA_PRODUCER
                   (Some (''cluster'', cluster_oid cl))
                   (filter (\<lambda>p. producer_cluster_id p = cluster_oid cl) (producers reg)) s of
              (None, s1) \<Rightarrow>
                Done () (ast_log LOG_WARNING
                  ''Unable to retrieve producers from cluster %s\<newline>'' [cluster_oid cl] s1)
            | (Some found, s1) \<Rightarrow> process_producers e reg cl found s1) of
        Fault f s2 \<Rightarrow> Fault f s2
      | Done u s2 \<Rightarrow>
          (case ast_sorcery_retrieve_by_fields e KAFKA_CONSUMER
                  (Some (''cluster'', cluster_oid cl))
                  (filter (\<lambda>c. consumer_cluster_id c = cluster_oid cl) (consumers reg)) s2 of
             (None, s3) \<Rightarrow>
               Done () (ast_log LOG_WARNING
                 ''Unable to retrieve consumers from cluster %s\<newline>'' [cluster_oid cl] s3)
           | (Some found, s3) \<Rightarrow> Done () (process_consumers e reg cl found s3)))"

fun process_clusters ::
  "env \<Rightarrow> registry \<Rightarrow> sorcery_kafka_cluster list \<Rightarrow> kstate \<Rightarrow> unit outcome" where
  "process_clusters e reg [] s = Done () s"
| "process_clusters e reg (cl # found) s =
     (case process_cluster e reg cl s of
        Fault f s1 \<Rightarrow> Fault f s1
      | Done u s1 \<Rightarrow> process_clusters e reg found s1)"

text \<open>
  \<^verbatim>\<open>process_all_clusters\<close> reads the module's one registry, \<^verbatim>\<open>kafka_sorcery\<close>; the
  functions above receive what it holds. A retrieval from a registry that is
  \<^verbatim>\<open>NULL\<close> is a fault.
\<close>

definition process_all_clusters :: "env \<Rightarrow> kstate \<Rightarrow> unit outcome" where
  "process_all_clusters e s =
     (case kafka_sorcery s of
        None \<Rightarrow> Fault Null_dereference s
      | Some reg \<Rightarrow>
          (case ast_sorcery_retrieve_by_fields e KAFKA_CLUSTER None (clusters reg) s of
             (None, s1) \<Rightarrow> Done () s1
           | (Some found, s1) \<Rightarrow> process_clusters e reg found s1))"

section \<open>Module hooks\<close>

datatype ast_module_load_result = AST_MODULE_LOAD_SUCCESS | AST_MODULE_LOAD_DECLINE

definition KAFKA_CONFIG_FILENAME :: string where "KAFKA_CONFIG_FILENAME = ''kafka.conf''"

definition ast_sorcery_object_field_register ::
  "string \<Rightarrow> string \<Rightarrow> string \<Rightarrow> kstate \<Rightarrow> kstate" where
  "ast_sorcery_object_field_register ty name dflt s =
     emit (Ast_sorcery_object_field_register ty name dflt) s"

definition ast_sorcery_unref :: "kstate \<Rightarrow> kstate" where
  "ast_sorcery_unref s = emit Ast_sorcery_unref s"

definition sorcery_object_register :: "env \<Rightarrow> string \<Rightarrow> kstate \<Rightarrow> int \<times> kstate" where
  "sorcery_object_register e ty s =
     (let options = KAFKA_CONFIG_FILENAME @ '',criteria=type='' @ ty;
          s1 = (if ast_sorcery_apply_default_ok e ty
                then emit (Ast_sorcery_apply_default ty options True) s
                else ast_log LOG_NOTICE ''Failed to apply defaults for Kafka sorcery %s\<newline>'' [ty]
                       (emit (Ast_sorcery_apply_default ty options False) s))
      in if ast_sorcery_object_register_ok e ty
         then (0, ast_sorcery_object_field_register ty ''type'' []
                    (emit (Ast_sorcery_object_register ty True) s1))
         else (- 1, ast_log LOG_ERROR ''Failed to register '%s' with Kafka sorcery.\<newline>'' [ty]
                      (emit (Ast_sorcery_object_register ty False) s1)))"

text \<open>The field registrations of \<^verbatim>\<open>load_module\<close>, one block per object type.\<close>

definition register_cluster_fields :: "kstate \<Rightarrow> kstate" where
  "register_cluster_fields s =
     ast_sorcery_object_field_register KAFKA_CLUSTER ''ssl'' ''no''
    (ast_sorcery_object_field_register KAFKA_CLUSTER ''port'' ''1883''
    (ast_sorcery_object_field_register KAFKA_CLUSTER ''client_id'' ''asterisk''
    (ast_sorcery_object_field_register KAFKA_CLUSTER ''sasl_password'' []
    (ast_sorcery_object_field_register KAFKA_CLUSTER ''sasl_username'' []
    (ast_sorcery_object_field_register KAFKA_CLUSTER ''sasl_mechanism'' ''PLAIN''
    (ast_sorcery_object_field_register KAFKA_CLUSTER ''security_protocol'' ''plaintext''
    (ast_sorcery_object_field_register KAFKA_CLUSTER ''brokers'' ''localhost'' s)))))))"

definition register_topic_fields :: "kstate \<Rightarrow> kstate" where
  "register_topic_fields s =
     ast_sorcery_object_field_register KAFKA_TOPIC ''consumer'' []
    (ast_sorcery_object_field_register KAFKA_TOPIC ''producer'' []
    (ast_sorcery_object_field_register KAFKA_TOPIC ''topic'' [] s))"

definition empty_registry :: registry where
  "empty_registry = \<lparr>clusters = [], producers = [], consumers = [], topics = []\<rparr>"

text \<open>
  \<^verbatim>\<open>ast_sorcery_load\<close> and \<^verbatim>\<open>ast_sorcery_reload\<close> fill the registry with the
  objects kafka.conf defines at that moment (\<open>file\<close>).
\<close>

definition ast_sorcery_load :: "registry \<Rightarrow> kstate \<Rightarrow> kstate" where
  "ast_sorcery_load file s = emit Ast_sorcery_load (s\<lparr>kafka_sorcery := Some file\<rparr>)"

definition decline :: "kstate \<Rightarrow> ast_module_load_result outcome" where
  "decline s = Done AST_MODULE_LOAD_DECLINE ((ast_sorcery_unref s)\<lparr>kafka_sorcery := None\<rparr>)"

definition load_module :: "env \<Rightarrow> registry \<Rightarrow> kstate \<Rightarrow> ast_module_load_result outcome" where
  "load_module e file s =
     (if \<not> ast_sorcery_open_ok e then
        Done AST_MODULE_LOAD_DECLINE
          (ast_log LOG_ERROR ''Failed to open Kafka sorcery.\<newline>'' []
             (emit (Ast_sorcery_open False) (s\<lparr>kafka_sorcery := None\<rparr>)))
      else
     (case sorcery_object_register e KAFKA_CLUSTER
             (emit (Ast_sorcery_open True) (s\<lparr>kafka_sorcery := Some empty_registry\<rparr>)) of
        (rc1, s1) \<Rightarrow>
     (if rc1 \<noteq> 0 then decline s1 else
     (case sorcery_object_register e KAFKA_TOPIC (register_cluster_fields s1) of
        (rc2, s2) \<Rightarrow>
     (if rc2 \<noteq> 0 then decline s2 else
     (case sorcery_object_register e KAFKA_PRODUCER (register_topic_fields s2) of
        (rc3, s3) \<Rightarrow>
     (if rc3 \<noteq> 0 then decline s3 else
     (if \<not> ast_sorcery_observer_add_ok e KAFKA_PRODUCER then
        decline (ast_log LOG_ERROR
          ''Failed to register observer for '%s' with Kafka sorcery.\<newline>'' [KAFKA_PRODUCER]
          (emit (Ast_sorcery_observer_add KAFKA_PRODUCER False)
             (ast_sorcery_object_field_register KAFKA_PRODUCER ''cluster'' [] s3)))
      else
     (case sorcery_object_register e KAFKA_CONSUMER
             (emit (Ast_sorcery_observer_add KAFKA_PRODUCER True)
                (ast_sorcery_object_field_register KAFKA_PRODUCER ''cluster'' [] s3)) of
        (rc4, s4) \<Rightarrow>
     (if rc4 \<noteq> 0 then decline s4 else
     (case process_all_clusters e
             (ast_sorcery_load file
                (ast_sorcery_object_field_register KAFKA_CONSUMER ''cluster'' [] s4)) of
        Fault f s5 \<Rightarrow> Fault f s5
      | Done u s5 \<Rightarrow> Done AST_MODULE_LOAD_SUCCESS (emit Ast_cli_register_multiple s5))))))))))))"

definition unload_module :: "kstate \<Rightarrow> int \<times> kstate" where
  "unload_module s =
     (0, (ast_sorcery_unref
            (emit Ast_cli_unregister_multiple
               (emit (Ast_sorcery_observer_remove KAFKA_PRODUCER) s)))\<lparr>kafka_sorcery := None\<rparr>)"

definition reload_module :: "registry \<Rightarrow> kstate \<Rightarrow> int outcome" where
  "reload_module file s =
     (case kafka_sorcery s of
        None \<Rightarrow> Fault Null_dereference s
      | Some reg \<Rightarrow> Done 0 (emit Ast_sorcery_reload (s\<lparr>kafka_sorcery := Some file\<rparr>)))"

section \<open>Observations\<close>

definition state_of :: "'a outcome \<Rightarrow> kstate" where
  "state_of r = (case r of Done x s \<Rightarrow> s | Fault f s \<Rightarrow> s)"

definition result_of :: "'a outcome \<Rightarrow> 'a option" where
  "result_of r = (case r of Done x s \<Rightarrow> Some x | Fault f s \<Rightarrow> None)"

definition fault_of :: "'a outcome \<Rightarrow> fault option" where
  "fault_of r = (case r of Done x s \<Rightarrow> None | Fault f s \<Rightarrow> Some f)"

text \<open>The connections and topic handles the library created and destroyed, in order.\<close>

fun rd_kafka_created :: "event list \<Rightarrow> nat list" where
  "rd_kafka_created [] = []"
| "rd_kafka_created (Rd_kafka_new ty config (Some rk) # tr) = rk # rd_kafka_created tr"
| "rd_kafka_created (ev # tr) = rd_kafka_created tr"

fun rd_kafka_destroyed :: "event list \<Rightarrow> nat list" where
  "rd_kafka_destroyed [] = []"
| "rd_kafka_destroyed (Rd_kafka_destroy rk # tr) = rk # rd_kafka_destroyed tr"
| "rd_kafka_destroyed (ev # tr) = rd_kafka_destroyed tr"

fun rd_kafka_attempted :: "event list \<Rightarrow> nat" where
  "rd_kafka_attempted [] = 0"
| "rd_kafka_attempted (Rd_kafka_new ty config r # tr) = Suc (rd_kafka_attempted tr)"
| "rd_kafka_attempted (ev # tr) = rd_kafka_attempted tr"

fun rd_kafka_topic_created :: "event list \<Rightarrow> (nat \<times> string \<times> nat) list" where
  "rd_kafka_topic_created [] = []"
| "rd_kafka_topic_created (Rd_kafka_topic_new rk name (Some rkt) # tr) =
     (rk, name, rkt) # rd_kafka_topic_created tr"
| "rd_kafka_topic_created (ev # tr) = rd_kafka_topic_created tr"

fun rd_kafka_topic_destroyed :: "event list \<Rightarrow> nat list" where
  "rd_kafka_topic_destroyed [] = []"
| "rd_kafka_topic_destroyed (Rd_kafka_topic_destroy rkt # tr) = rkt # rd_kafka_topic_destroyed tr"
| "rd_kafka_topic_destroyed (ev # tr) = rd_kafka_topic_destroyed tr"

text \<open>The reference count changes made to one object, in order.\<close>

fun ao2_refs :: "nat \<Rightarrow> event list \<Rightarrow> int list" where
  "ao2_refs p [] = []"
| "ao2_refs p (Ao2_ref q delta # tr) = (if q = p then delta # ao2_refs p tr else ao2_refs p tr)"
| "ao2_refs p (ev # tr) = ao2_refs p tr"

fun rd_kafka_conf_new_calls :: "event list \<Rightarrow> nat" where
  "rd_kafka_conf_new_calls [] = 0"
| "rd_kafka_conf_new_calls (Rd_kafka_conf_new ok # tr) = Suc (rd_kafka_conf_new_calls tr)"
| "rd_kafka_conf_new_calls (ev # tr) = rd_kafka_conf_new_calls tr"

text \<open>Every live connection handle was handed out before the next fresh pointer.\<close>

definition wf_live :: "kstate \<Rightarrow> bool" where
  "wf_live s = (\<forall>h \<in> set (live_rd_kafka s). h < next_ptr s)"

text \<open>The heap, the pointers handed out and the live library handles are the same in both states.\<close>

definition same_resources :: "kstate \<Rightarrow> kstate \<Rightarrow> bool" where
  "same_resources s s' =
     (heap s' = heap s \<and> next_ptr s' = next_ptr s \<and> live_rd_kafka s' = live_rd_kafka s
      \<and> live_rd_kafka_topic s' = live_rd_kafka_topic s)"

section \<open>Example configurations\<close>

text \<open>An environment in which every call succeeds, and the state before the module is loaded.\<close>

definition env_ok :: env where
  "env_ok =
     \<lparr>rd_kafka_conf_new_ok = (\<lambda>n. True),
      rd_kafka_conf_set_err = (\<lambda>config name val. None),
      rd_kafka_new_err = (\<lambda>n ty config. None),
      rd_kafka_topic_conf_new_ok = (\<lambda>n. True),
      rd_kafka_topic_new_err = (\<lambda>n name. None),
      rd_kafka_produce_err = (\<lambda>n. None),
      rd_kafka_flush_resp = (\<lambda>n. 0),
      rd_kafka_err2str = (\<lambda>err. ''Success''),
      ao2_alloc_ok = (\<lambda>n. True),
      ast_sorcery_retrieve_ok = (\<lambda>n. True),
      ast_sorcery_open_ok = True,
      ast_sorcery_apply_default_ok = (\<lambda>ty. True),
      ast_sorcery_object_register_ok = (\<lambda>ty. True),
      ast_sorcery_observer_add_ok = (\<lambda>ty. True)\<rparr>"

definition state0 :: kstate where
  "state0 =
     \<lparr>heap = Map.empty, next_ptr = 1, live_rd_kafka = [], live_rd_kafka_topic = [],
      kafka_sorcery = None, trace = []\<rparr>"

definition cluster_C1 :: sorcery_kafka_cluster where
  "cluster_C1 =
     \<lparr>cluster_oid = ''C1'', brokers = ''broker1:9092'', security_protocol = ''plaintext'',
      sasl_mechanism = ''PLAIN'', sasl_username = [], sasl_password = [],
      client_id = ''asterisk'', port = 1883, ssl = 0, cluster = None\<rparr>"

definition producer_P1 :: sorcery_kafka_producer where
  "producer_P1 = \<lparr>producer_oid = ''P1'', producer_cluster_id = ''C1''\<rparr>"

definition producer_P2 :: sorcery_kafka_producer where
  "producer_P2 = \<lparr>producer_oid = ''P2'', producer_cluster_id = ''C1''\<rparr>"

definition topic_T1 :: sorcery_kafka_topic where
  "topic_T1 = \<lparr>topic_oid = ''T1'', topic = ''orders'', producer_id = ''P1'', consumer_id = []\<rparr>"

definition topic_T2 :: sorcery_kafka_topic where
  "topic_T2 = \<lparr>topic_oid = ''T2'', topic = ''events'', producer_id = ''P2'', consumer_id = []\<rparr>"

definition conf_C1_P1_T1 :: registry where
  "conf_C1_P1_T1 =
     \<lparr>clusters = [cluster_C1], producers = [producer_P1], consumers = [], topics = [topic_T1]\<rparr>"

definition conf_two_producers :: registry where
  "conf_two_producers =
     \<lparr>clusters = [cluster_C1], producers = [producer_P1, producer_P2], consumers = [],
      topics = [topic_T1, topic_T2]\<rparr>"

text \<open>
  A library that refuses to create a topic handle for an empty topic name, and a topic
  whose broker-side name is left at its default, the empty string.
\<close>

definition env_topic_fails :: env where
  "env_topic_fails =
     env_ok\<lparr>rd_kafka_topic_new_err :=
       (\<lambda>n name. if name = [] then Some ''Invalid argument'' else None)\<rparr>"

definition topic_T0 :: sorcery_kafka_topic where
  "topic_T0 = \<lparr>topic_oid = ''T0'', topic = [], producer_id = ''P1'', consumer_id = []\<rparr>"

text \<open>The state right after a producer connection for C1 has been created for P1.\<close>

definition state_with_producer :: kstate where
  "state_with_producer = snd (new_kafka_producer env_ok cluster_C1 producer_P1 state0)"

text \<open>The state right after a topic handle for T1 has been created on that connection.\<close>

definition state_with_topic :: kstate where
  "state_with_topic = state_of (new_kafka_producer_topic env_ok 1 topic_T1 state_with_producer)"

text \<open>
  A library that, like librdkafka, checks the security protocol against its own list when
  the property is set and takes any broker list, the empty one included; and two cluster
  records that break the invariant of the data model.
\<close>

definition env_strict :: env where
  "env_strict =
     env_ok\<lparr>rd_kafka_conf_set_err :=
       (\<lambda>config name val.
          if name = ''security.protocol''
             \<and> val \<notin> set [''plaintext'', ''ssl'', ''sasl_plaintext'', ''sasl_ssl'']
          then Some ''Invalid value for configuration property'' else None)\<rparr>"

definition cluster_no_brokers :: sorcery_kafka_cluster where
  "cluster_no_brokers = cluster_C1\<lparr>brokers := []\<rparr>"

definition cluster_bogus_protocol :: sorcery_kafka_cluster where
  "cluster_bogus_protocol = cluster_C1\<lparr>security_protocol := ''bogus''\<rparr>"

text \<open>The state after the module was loaded over C1, P1 and T1 with every call succeeding.\<close>

definition state_loaded :: kstate where
  "state_loaded = state_of (load_module env_ok conf_C1_P1_T1 state0)"

text \<open>
  A registry that refuses the producer observer, and a library whose first attempt to
  create a connection fails while later ones succeed.
\<close>

definition env_observer_fails :: env where
  "env_observer_fails = env_ok\<lparr>ast_sorcery_observer_add_ok := (\<lambda>ty. False)\<rparr>"

definition env_first_connection_fails :: env where
  "env_first_connection_fails =
     env_ok\<lparr>rd_kafka_new_err :=
       (\<lambda>n ty config. if n < 12 then Some ''Failed to create thread'' else None)\<rparr>"

section \<open>What each function changes\<close>

lemmas prims = emit_def tick_def ast_log_def rd_kafka_conf_new_def rd_kafka_conf_set_def rd_kafka_conf_destroy_def
  rd_kafka_new_def rd_kafka_destroy_def rd_kafka_topic_conf_new_def rd_kafka_topic_conf_set_opaque_def
  rd_kafka_topic_conf_destroy_def rd_kafka_topic_new_def rd_kafka_topic_destroy_def rd_kafka_produce_def
  rd_kafka_flush_def ao2_alloc_def kafka_producer_destructor_def kafka_producer_topic_destructor_def
  destructor_def ao2_ref_def ao2_cleanup_def set_body_def ast_sorcery_retrieve_by_fields_def
  producer_rd_kafka_def topic_rd_kafka_topic_def

lemma ao2_refs_append [simp]: "ao2_refs p (xs @ ys) = ao2_refs p xs @ ao2_refs p ys"
  by (induction p xs rule: ao2_refs.induct) simp_all

lemma rd_kafka_created_append [simp]:
  "rd_kafka_created (xs @ ys) = rd_kafka_created xs @ rd_kafka_created ys"
  by (induction xs rule: rd_kafka_created.induct) simp_all

lemma rd_kafka_destroyed_append [simp]:
  "rd_kafka_destroyed (xs @ ys) = rd_kafka_destroyed xs @ rd_kafka_destroyed ys"
  by (induction xs rule: rd_kafka_destroyed.induct) simp_all

lemma rd_kafka_attempted_append [simp]:
  "rd_kafka_attempted (xs @ ys) = rd_kafka_attempted xs + rd_kafka_attempted ys"
  by (induction xs rule: rd_kafka_attempted.induct) simp_all

lemma rd_kafka_topic_created_append [simp]:
  "rd_kafka_topic_created (xs @ ys) = rd_kafka_topic_created xs @ rd_kafka_topic_created ys"
  by (induction xs rule: rd_kafka_topic_created.induct) simp_all

lemma rd_kafka_topic_destroyed_append [simp]:
  "rd_kafka_topic_destroyed (xs @ ys) = rd_kafka_topic_destroyed xs @ rd_kafka_topic_destroyed ys"
  by (induction xs rule: rd_kafka_topic_destroyed.induct) simp_all

lemma rd_kafka_conf_new_calls_append [simp]:
  "rd_kafka_conf_new_calls (xs @ ys) = rd_kafka_conf_new_calls xs + rd_kafka_conf_new_calls ys"
  by (induction xs rule: rd_kafka_conf_new_calls.induct) simp_all

text \<open>Building a configuration only adds configuration events to the trace.\<close>

lemma build_frame:
  "snd (build_rdkafka_cluster_config e cl s) = s\<lparr>trace := trace (snd (build_rdkafka_cluster_config e cl s))\<rparr>"
  "prefix (trace s) (trace (snd (build_rdkafka_cluster_config e cl s)))"
  "rd_kafka_attempted (trace (snd (build_rdkafka_cluster_config e cl s))) = rd_kafka_attempted (trace s)"
  "rd_kafka_created (trace (snd (build_rdkafka_cluster_config e cl s))) = rd_kafka_created (trace s)"
  "rd_kafka_destroyed (trace (snd (build_rdkafka_cluster_config e cl s))) = rd_kafka_destroyed (trace s)"
  "rd_kafka_conf_new_calls (trace (snd (build_rdkafka_cluster_config e cl s)))
     = Suc (rd_kafka_conf_new_calls (trace s))"
  by (simp_all add: build_rdkafka_cluster_config_def prims split: option.splits)

lemma new_kafka_producer_SomeD:
  assumes "new_kafka_producer e cl p s = (Some producer, s')"
  shows "producer = next_ptr s"
    "heap s' = (heap s)(next_ptr s \<mapsto> \<lparr>refcount = 1, body = Kafka_producer (Some (Suc (next_ptr s)))\<rparr>)"
    "next_ptr s' = Suc (Suc (next_ptr s))"
    "live_rd_kafka s' = Suc (next_ptr s) # live_rd_kafka s"
    "live_rd_kafka_topic s' = live_rd_kafka_topic s"
    "kafka_sorcery s' = kafka_sorcery s"
    "rd_kafka_attempted (trace s') = Suc (rd_kafka_attempted (trace s))"
    "rd_kafka_created (trace s') = rd_kafka_created (trace s) @ [Suc (next_ptr s)]"
    "rd_kafka_destroyed (trace s') = rd_kafka_destroyed (trace s)"
    "prefix (trace s) (trace s')"
proof -
  define s1 where "s1 = snd (build_rdkafka_cluster_config e cl s)"
  obtain r where r: "build_rdkafka_cluster_config e cl s = (r, s1)"
    unfolding s1_def by (metis prod.collapse)
  have f: "s1 = s\<lparr>trace := trace s1\<rparr>" "prefix (trace s) (trace s1)"
    "rd_kafka_attempted (trace s1) = rd_kafka_attempted (trace s)"
    "rd_kafka_created (trace s1) = rd_kafka_created (trace s)"
    "rd_kafka_destroyed (trace s1) = rd_kafka_destroyed (trace s)"
    unfolding s1_def by (rule build_frame)+
  have h: "heap s1 = heap s" "next_ptr s1 = next_ptr s" "live_rd_kafka s1 = live_rd_kafka s"
     "live_rd_kafka_topic s1 = live_rd_kafka_topic s" "kafka_sorcery s1 = kafka_sorcery s"
    by (subst f(1), simp)+
  have "\<exists>config. s' = s1\<lparr>heap := (heap s1)(next_ptr s1 \<mapsto> \<lparr>refcount = 1, body = Kafka_producer (Some (Suc (next_ptr s1)))\<rparr>),
            next_ptr := Suc (Suc (next_ptr s1)),
            live_rd_kafka := Suc (next_ptr s1) # live_rd_kafka s1,
            trace := trace s1 @ [Ao2_alloc (Some (next_ptr s1)),
                        Rd_kafka_new RD_KAFKA_PRODUCER config (Some (Suc (next_ptr s1)))]\<rparr>
          \<and> producer = next_ptr s1"
  proof (cases r)
    case None
    then show ?thesis using assms unfolding new_kafka_producer_def r by simp
  next
    case (Some config)
    show ?thesis
    proof (cases "ao2_alloc_ok e (tick s1)")
      case False
      then show ?thesis using assms Some unfolding new_kafka_producer_def r
        by (simp add: ao2_alloc_def)
    next
      case True
      show ?thesis
      proof (cases "rd_kafka_new_err e (Suc (tick s1)) RD_KAFKA_PRODUCER config")
        case (Some errstr)
        then show ?thesis using assms \<open>r = Some config\<close> True unfolding new_kafka_producer_def r
          by (simp add: ao2_alloc_def rd_kafka_new_def emit_def tick_def)
      next
        case None
        then have "new_kafka_producer e cl p s = (Some (next_ptr s1),
            s1\<lparr>heap := (heap s1)(next_ptr s1 \<mapsto> \<lparr>refcount = 1, body = Kafka_producer (Some (Suc (next_ptr s1)))\<rparr>),
            next_ptr := Suc (Suc (next_ptr s1)),
            live_rd_kafka := Suc (next_ptr s1) # live_rd_kafka s1,
            trace := trace s1 @ [Ao2_alloc (Some (next_ptr s1)),
                        Rd_kafka_new RD_KAFKA_PRODUCER config (Some (Suc (next_ptr s1)))]\<rparr>)"
          using \<open>r = Some config\<close> True unfolding new_kafka_producer_def r
          by (simp add: ao2_alloc_def rd_kafka_new_def emit_def tick_def set_body_def)
        with assms show ?thesis by (intro exI[of _ config]) auto
      qed
    qed
  qed
  then obtain config where
    s': "s' = s1\<lparr>heap := (heap s1)(next_ptr s1 \<mapsto> \<lparr>refcount = 1, body = Kafka_producer (Some (Suc (next_ptr s1)))\<rparr>),
            next_ptr := Suc (Suc (next_ptr s1)),
            live_rd_kafka := Suc (next_ptr s1) # live_rd_kafka s1,
            trace := trace s1 @ [Ao2_alloc (Some (next_ptr s1)),
                        Rd_kafka_new RD_KAFKA_PRODUCER config (Some (Suc (next_ptr s1)))]\<rparr>"
    and p: "producer = next_ptr s1" by blast
  show "producer = next_ptr s" using p h by simp
  show "heap s' = (heap s)(next_ptr s \<mapsto> \<lparr>refcount = 1, body = Kafka_producer (Some (Suc (next_ptr s)))\<rparr>)"
    using s' h by simp
  show "next_ptr s' = Suc (Suc (next_ptr s))" using s' h by simp
  show "live_rd_kafka s' = Suc (next_ptr s) # live_rd_kafka s" using s' h by simp
  show "live_rd_kafka_topic s' = live_rd_kafka_topic s" using s' h by simp
  show "kafka_sorcery s' = kafka_sorcery s" using s' h by simp
  show "rd_kafka_attempted (trace s') = Suc (rd_kafka_attempted (trace s))" using s' f by simp
  show "rd_kafka_created (trace s') = rd_kafka_created (trace s) @ [Suc (next_ptr s)]" using s' f h by simp
  show "rd_kafka_destroyed (trace s') = rd_kafka_destroyed (trace s)" using s' f by simp
  show "prefix (trace s) (trace s')" using s' f by (simp add: prefix_order.trans)
qed


lemma new_kafka_producer_topic_frame:
  assumes "producer < next_ptr s"
  shows "heap (state_of (new_kafka_producer_topic e producer t s)) producer = heap s producer"
   and "next_ptr s \<le> next_ptr (state_of (new_kafka_producer_topic e producer t s))"
   and "live_rd_kafka (state_of (new_kafka_producer_topic e producer t s)) = live_rd_kafka s"
   and "kafka_sorcery (state_of (new_kafka_producer_topic e producer t s)) = kafka_sorcery s"
   and "rd_kafka_attempted (trace (state_of (new_kafka_producer_topic e producer t s))) = rd_kafka_attempted (trace s)"
   and "rd_kafka_created (trace (state_of (new_kafka_producer_topic e producer t s))) = rd_kafka_created (trace s)"
   and "rd_kafka_destroyed (trace (state_of (new_kafka_producer_topic e producer t s))) = rd_kafka_destroyed (trace s)"
   and "ao2_refs producer (trace (state_of (new_kafka_producer_topic e producer t s))) = ao2_refs producer (trace s)"
   and "prefix (trace s) (trace (state_of (new_kafka_producer_topic e producer t s)))"
  using assms
  by (simp_all add: new_kafka_producer_topic_def prims state_of_def split: option.splits ao2_body.splits)

lemma process_producer_topic_frame:
  assumes "producer < next_ptr s"
  shows "heap (state_of (process_producer_topic e producer t s)) producer = heap s producer"
   and "next_ptr s \<le> next_ptr (state_of (process_producer_topic e producer t s))"
   and "live_rd_kafka (state_of (process_producer_topic e producer t s)) = live_rd_kafka s"
   and "kafka_sorcery (state_of (process_producer_topic e producer t s)) = kafka_sorcery s"
   and "rd_kafka_attempted (trace (state_of (process_producer_topic e producer t s))) = rd_kafka_attempted (trace s)"
   and "rd_kafka_created (trace (state_of (process_producer_topic e producer t s))) = rd_kafka_created (trace s)"
   and "rd_kafka_destroyed (trace (state_of (process_producer_topic e producer t s))) = rd_kafka_destroyed (trace s)"
   and "ao2_refs producer (trace (state_of (process_producer_topic e producer t s))) = ao2_refs producer (trace s)"
   and "prefix (trace s) (trace (state_of (process_producer_topic e producer t s)))"
  using assms
  by (simp_all add: process_producer_topic_def new_kafka_producer_topic_def prims state_of_def
      split: option.splits ao2_body.splits)

lemma process_producer_topics_frame:
  "producer < next_ptr s \<Longrightarrow>
   heap (state_of (process_producer_topics e producer ts s)) producer = heap s producer
   \<and> next_ptr s \<le> next_ptr (state_of (process_producer_topics e producer ts s))
   \<and> live_rd_kafka (state_of (process_producer_topics e producer ts s)) = live_rd_kafka s
   \<and> kafka_sorcery (state_of (process_producer_topics e producer ts s)) = kafka_sorcery s
   \<and> rd_kafka_attempted (trace (state_of (process_producer_topics e producer ts s))) = rd_kafka_attempted (trace s)
   \<and> rd_kafka_created (trace (state_of (process_producer_topics e producer ts s))) = rd_kafka_created (trace s)
   \<and> rd_kafka_destroyed (trace (state_of (process_producer_topics e producer ts s))) = rd_kafka_destroyed (trace s)
   \<and> ao2_refs producer (trace (state_of (process_producer_topics e producer ts s))) = ao2_refs producer (trace s)
   \<and> prefix (trace s) (trace (state_of (process_producer_topics e producer ts s)))"
proof (induction ts arbitrary: s)
  case Nil
  then show ?case by (simp add: state_of_def)
next
  case (Cons t ts)
  note f = process_producer_topic_frame[OF Cons.prems, of e t]
  show ?case
  proof (cases "process_producer_topic e producer t s")
    case (Fault x s1)
    then show ?thesis using f by (simp add: state_of_def)
  next
    case (Done u s1)
    then have s1: "state_of (process_producer_topic e producer t s) = s1"
      by (simp add: state_of_def)
    have lt: "producer < next_ptr s1" using f(2) Cons.prems unfolding s1 by simp
    have eq: "process_producer_topics e producer (t # ts) s = process_producer_topics e producer ts s1"
      using Done by simp
    show ?thesis unfolding eq using Cons.IH[OF lt] f[unfolded s1]
      by (auto intro: prefix_order.trans)
  qed
qed

lemma new_kafka_producer_frame:
  shows "next_ptr s \<le> next_ptr (snd (new_kafka_producer e cl p s))"
    and "kafka_sorcery (snd (new_kafka_producer e cl p s)) = kafka_sorcery s"
    and "rd_kafka_attempted (trace (snd (new_kafka_producer e cl p s))) \<le> Suc (rd_kafka_attempted (trace s))"
    and "rd_kafka_destroyed (trace (snd (new_kafka_producer e cl p s))) = rd_kafka_destroyed (trace s)"
    and "prefix (trace s) (trace (snd (new_kafka_producer e cl p s)))"
    and "fst (new_kafka_producer e cl p s) = None \<Longrightarrow>
           live_rd_kafka (snd (new_kafka_producer e cl p s)) = live_rd_kafka s
         \<and> rd_kafka_created (trace (snd (new_kafka_producer e cl p s))) = rd_kafka_created (trace s)"
proof -
  define s1 where "s1 = snd (build_rdkafka_cluster_config e cl s)"
  obtain r where r: "build_rdkafka_cluster_config e cl s = (r, s1)"
    unfolding s1_def by (metis prod.collapse)
  have f: "s1 = s\<lparr>trace := trace s1\<rparr>" "prefix (trace s) (trace s1)"
    "rd_kafka_attempted (trace s1) = rd_kafka_attempted (trace s)"
    "rd_kafka_created (trace s1) = rd_kafka_created (trace s)"
    "rd_kafka_destroyed (trace s1) = rd_kafka_destroyed (trace s)"
    unfolding s1_def by (rule build_frame)+
  have h: "heap s1 = heap s" "next_ptr s1 = next_ptr s" "live_rd_kafka s1 = live_rd_kafka s"
     "live_rd_kafka_topic s1 = live_rd_kafka_topic s" "kafka_sorcery s1 = kafka_sorcery s"
    by (subst f(1), simp)+
  have px: "\<And>evs. prefix (trace s) (trace s1 @ evs)"
    using f(2) by (meson prefix_order.trans prefixI)
  show "next_ptr s \<le> next_ptr (snd (new_kafka_producer e cl p s))"
    unfolding new_kafka_producer_def r using h
    by (simp add: prims split: option.splits sum.splits)
  show "kafka_sorcery (snd (new_kafka_producer e cl p s)) = kafka_sorcery s"
    unfolding new_kafka_producer_def r using h
    by (simp add: prims split: option.splits sum.splits)
  show "rd_kafka_attempted (trace (snd (new_kafka_producer e cl p s))) \<le> Suc (rd_kafka_attempted (trace s))"
    unfolding new_kafka_producer_def r using h f
    by (simp add: prims split: option.splits sum.splits)
  show "rd_kafka_destroyed (trace (snd (new_kafka_producer e cl p s))) = rd_kafka_destroyed (trace s)"
    unfolding new_kafka_producer_def r using h f
    by (simp add: prims split: option.splits sum.splits)
  show "prefix (trace s) (trace (snd (new_kafka_producer e cl p s)))"
    unfolding new_kafka_producer_def r using h f px
    by (simp add: prims split: option.splits sum.splits)
  show "fst (new_kafka_producer e cl p s) = None \<Longrightarrow>
           live_rd_kafka (snd (new_kafka_producer e cl p s)) = live_rd_kafka s
         \<and> rd_kafka_created (trace (snd (new_kafka_producer e cl p s))) = rd_kafka_created (trace s)"
    unfolding new_kafka_producer_def r using h f
    by (auto simp add: prims split: option.splits sum.splits if_splits)
qed

lemma ao2_ref_frame:
  "next_ptr (ao2_ref p d s) = next_ptr s"
  "kafka_sorcery (ao2_ref p d s) = kafka_sorcery s"
  "rd_kafka_attempted (trace (ao2_ref p d s)) = rd_kafka_attempted (trace s)"
  "prefix (trace s) (trace (ao2_ref p d s))"
  by (simp_all add: prims split: option.splits ao2_body.splits)

lemma ao2_ref_last_producer:
  "heap s p = Some \<lparr>refcount = 1, body = Kafka_producer (Some rk)\<rparr> \<Longrightarrow>
   live_rd_kafka (ao2_ref p (- 1) s) = removeAll rk (live_rd_kafka s)
   \<and> heap (ao2_ref p (- 1) s) = (heap s)(p := None)
   \<and> rd_kafka_destroyed (trace (ao2_ref p (- 1) s)) = rd_kafka_destroyed (trace s) @ [rk]
   \<and> rd_kafka_created (trace (ao2_ref p (- 1) s)) = rd_kafka_created (trace s)"
  by (simp add: prims)

lemma process_producer_any:
  shows "next_ptr s \<le> next_ptr (state_of (process_producer e reg cl p s))"
    and "kafka_sorcery (state_of (process_producer e reg cl p s)) = kafka_sorcery s"
    and "rd_kafka_attempted (trace (state_of (process_producer e reg cl p s))) \<le> Suc (rd_kafka_attempted (trace s))"
    and "prefix (trace s) (trace (state_of (process_producer e reg cl p s)))"
    and "Ast_sorcery_retrieve_by_fields KAFKA_TOPIC (Some (''producer'', producer_oid p))
           (ast_sorcery_retrieve_ok e (tick s)) \<in> set (trace (state_of (process_producer e reg cl p s)))"
proof -
  define ev where "ev = Ast_sorcery_retrieve_by_fields KAFKA_TOPIC (Some (''producer'', producer_oid p))
           (ast_sorcery_retrieve_ok e (tick s))"
  define s1 where "s1 = emit ev s"
  define found where "found = filter (\<lambda>t. producer_id t = producer_oid p) (topics reg)"
  have s1: "next_ptr s1 = next_ptr s" "kafka_sorcery s1 = kafka_sorcery s"
    "rd_kafka_attempted (trace s1) = rd_kafka_attempted (trace s)" "prefix (trace s) (trace s1)"
    "ev \<in> set (trace s1)"
    by (simp_all add: s1_def emit_def ev_def)
  have mono: "\<And>s'. prefix (trace s1) (trace s') \<Longrightarrow> prefix (trace s) (trace s') \<and> ev \<in> set (trace s')"
    using s1(4,5) by (meson prefix_order.trans set_mono_prefix subsetD)
  show "next_ptr s \<le> next_ptr (state_of (process_producer e reg cl p s))"
    and "kafka_sorcery (state_of (process_producer e reg cl p s)) = kafka_sorcery s"
    and "rd_kafka_attempted (trace (state_of (process_producer e reg cl p s))) \<le> Suc (rd_kafka_attempted (trace s))"
    and "prefix (trace s) (trace (state_of (process_producer e reg cl p s)))"
    and "Ast_sorcery_retrieve_by_fields KAFKA_TOPIC (Some (''producer'', producer_oid p))
           (ast_sorcery_retrieve_ok e (tick s)) \<in> set (trace (state_of (process_producer e reg cl p s)))"
  proof (atomize (full), goal_cases)
    case 1
    show ?case
    proof (cases "ast_sorcery_retrieve_ok e (tick s)")
      case False
      then show ?thesis
        by (simp add: process_producer_def ast_sorcery_retrieve_by_fields_def state_of_def ast_log_def emit_def)
    next
      case True
      show ?thesis
      proof (cases "found = []")
        case True
        then show ?thesis using \<open>ast_sorcery_retrieve_ok e (tick s)\<close>
          by (simp add: process_producer_def ast_sorcery_retrieve_by_fields_def state_of_def emit_def found_def)
      next
        case False
        obtain r2 s2 where n: "new_kafka_producer e cl p s1 = (r2, s2)" by fastforce
        note nf = new_kafka_producer_frame[where s=s1 and e=e and cl=cl and p=p, unfolded n snd_conv fst_conv]
        have pp: "process_producer e reg cl p s =
            (case r2 of None \<Rightarrow> Done (- 1) s2
             | Some producer \<Rightarrow> (case process_producer_topics e producer found s2 of
                     Fault f s3 \<Rightarrow> Fault f s3
                   | Done u s3 \<Rightarrow> Done 0 (ao2_ref producer (- 1) s3)))"
          using False True n unfolding found_def s1_def ev_def
          by (simp add: process_producer_def ast_sorcery_retrieve_by_fields_def)
        show ?thesis
        proof (cases r2)
          case None
          then show ?thesis unfolding pp ev_def[symmetric] using nf s1 mono[of s2]
            by (simp add: state_of_def)
        next
          case (Some producer)
          note sd = new_kafka_producer_SomeD[OF n[unfolded Some]]
          have lt: "producer < next_ptr s2" using sd by simp
          note tf = process_producer_topics_frame[OF lt, where e=e and ts=found]
          define s3 where "s3 = state_of (process_producer_topics e producer found s2)"
          have s3: "next_ptr s2 \<le> next_ptr s3" "kafka_sorcery s3 = kafka_sorcery s2"
             "rd_kafka_attempted (trace s3) = rd_kafka_attempted (trace s2)"
             "prefix (trace s2) (trace s3)"
            using tf unfolding s3_def by simp_all
          have p3: "prefix (trace s1) (trace s3)" using nf(5) s3(4) by (rule prefix_order.trans)
          have p4: "prefix (trace s1) (trace (ao2_ref producer (- 1) s3))"
            using p3 ao2_ref_frame(4) by (rule prefix_order.trans)
          show ?thesis
          proof (cases "process_producer_topics e producer found s2")
            case (Fault f s3')
            then have "s3' = s3" by (simp add: s3_def state_of_def)
            then show ?thesis unfolding pp Some ev_def[symmetric] using Fault s3 nf s1 mono[OF p3]
              by (simp add: state_of_def)
          next
            case (Done u s3')
            then have "s3' = s3" by (simp add: s3_def state_of_def)
            then show ?thesis unfolding pp Some ev_def[symmetric] using Done s3 nf s1 mono[OF p4]
              by (simp add: state_of_def ao2_ref_frame)
          qed
        qed
      qed
    qed
  qed
qed

lemma process_producer_done:
  assumes wf: "wf_live s" and d: "process_producer e reg cl p s = Done rc s'"
  shows "live_rd_kafka s' = live_rd_kafka s"
proof -
  define ev where "ev = Ast_sorcery_retrieve_by_fields KAFKA_TOPIC (Some (''producer'', producer_oid p))
           (ast_sorcery_retrieve_ok e (tick s))"
  define s1 where "s1 = emit ev s"
  define found where "found = filter (\<lambda>t. producer_id t = producer_oid p) (topics reg)"
  have s1: "next_ptr s1 = next_ptr s" "live_rd_kafka s1 = live_rd_kafka s"
    by (simp_all add: s1_def emit_def ev_def)
  show ?thesis
  proof (cases "ast_sorcery_retrieve_ok e (tick s)")
    case False
    then show ?thesis using d
      by (auto simp add: process_producer_def ast_sorcery_retrieve_by_fields_def ast_log_def emit_def)
  next
    case True
    show ?thesis
    proof (cases "found = []")
      case True
      then show ?thesis using \<open>ast_sorcery_retrieve_ok e (tick s)\<close> d unfolding found_def
        by (auto simp add: process_producer_def ast_sorcery_retrieve_by_fields_def emit_def)
    next
      case False
      obtain r2 s2 where n: "new_kafka_producer e cl p s1 = (r2, s2)" by fastforce
      note nf = new_kafka_producer_frame[where s=s1 and e=e and cl=cl and p=p, unfolded n snd_conv fst_conv]
      have pp: "process_producer e reg cl p s =
          (case r2 of None \<Rightarrow> Done (- 1) s2
           | Some producer \<Rightarrow> (case process_producer_topics e producer found s2 of
                   Fault f s3 \<Rightarrow> Fault f s3
                 | Done u s3 \<Rightarrow> Done 0 (ao2_ref producer (- 1) s3)))"
        using False True n unfolding found_def s1_def ev_def
        by (simp add: process_producer_def ast_sorcery_retrieve_by_fields_def)
      show ?thesis
      proof (cases r2)
        case None
        then show ?thesis using d nf(6) s1 unfolding pp by simp
      next
        case (Some producer)
        note sd = new_kafka_producer_SomeD[OF n[unfolded Some]]
        have lt: "producer < next_ptr s2" using sd by simp
        note tf = process_producer_topics_frame[OF lt, where e=e and ts=found]
        define s3 where "s3 = state_of (process_producer_topics e producer found s2)"
        have h3: "heap s3 producer = Some \<lparr>refcount = 1, body = Kafka_producer (Some (Suc (next_ptr s1)))\<rparr>"
          using tf sd unfolding s3_def by simp
        have l3: "live_rd_kafka s3 = Suc (next_ptr s1) # live_rd_kafka s1"
          using tf sd unfolding s3_def by simp
        have fresh: "Suc (next_ptr s1) \<notin> set (live_rd_kafka s1)"
          using wf s1 unfolding wf_live_def by auto
        from d obtain u where dd: "process_producer_topics e producer found s2 = Done u s3"
           and s': "s' = ao2_ref producer (- 1) s3"
          unfolding pp Some s3_def by (auto simp add: state_of_def split: outcome.splits)
        show ?thesis unfolding s' using ao2_ref_last_producer[OF h3] l3 fresh s1 by simp
      qed
    qed
  qed
qed

lemma process_producers_frame:
  "next_ptr s \<le> next_ptr (state_of (process_producers e reg cl ps s))
   \<and> kafka_sorcery (state_of (process_producers e reg cl ps s)) = kafka_sorcery s
   \<and> prefix (trace s) (trace (state_of (process_producers e reg cl ps s)))"
proof (induction ps arbitrary: s)
  case Nil
  then show ?case by (simp add: state_of_def)
next
  case (Cons p ps)
  note f = process_producer_any[where e=e and reg=reg and cl=cl and p=p and s=s]
  show ?case
  proof (cases "process_producer e reg cl p s")
    case (Fault x s1)
    then show ?thesis using f by (simp add: state_of_def)
  next
    case (Done rc s1)
    then have s1: "state_of (process_producer e reg cl p s) = s1" by (simp add: state_of_def)
    have eq: "process_producers e reg cl (p # ps) s = process_producers e reg cl ps s1"
      using Done by simp
    show ?thesis unfolding eq using Cons.IH[of s1] f[unfolded s1]
      by (auto intro: prefix_order.trans)
  qed
qed

lemma process_producers_done:
  "wf_live s \<Longrightarrow> process_producers e reg cl ps s = Done u s' \<Longrightarrow>
     live_rd_kafka s' = live_rd_kafka s
   \<and> (\<forall>p \<in> set ps. \<exists>ok. Ast_sorcery_retrieve_by_fields KAFKA_TOPIC
          (Some (''producer'', producer_oid p)) ok \<in> set (trace s'))"
proof (induction ps arbitrary: s)
  case Nil
  then show ?case by simp
next
  case (Cons p ps)
  from Cons.prems(2) obtain rc s1 where d1: "process_producer e reg cl p s = Done rc s1"
    and d2: "process_producers e reg cl ps s1 = Done u s'"
    by (auto split: outcome.splits)
  have s1: "state_of (process_producer e reg cl p s) = s1" using d1 by (simp add: state_of_def)
  note f = process_producer_any[where e=e and reg=reg and cl=cl and p=p and s=s, unfolded s1]
  have l1: "live_rd_kafka s1 = live_rd_kafka s" using process_producer_done[OF Cons.prems(1) d1] .
  have wf1: "wf_live s1" using Cons.prems(1) l1 f(1) unfolding wf_live_def by fastforce
  note ih = Cons.IH[OF wf1 d2]
  have px: "prefix (trace s1) (trace s')"
    using process_producers_frame[of s1 e reg cl ps] d2 by (simp add: state_of_def)
  have "Ast_sorcery_retrieve_by_fields KAFKA_TOPIC (Some (''producer'', producer_oid p))
           (ast_sorcery_retrieve_ok e (tick s)) \<in> set (trace s')"
    using f(5) px by (meson set_mono_prefix subsetD)
  then show ?case using ih l1 by auto
qed

lemma fold_process_consumer_topic [simp]:
  "fold (process_consumer_topic cl consumer) found s = s"
  by (induction found) (simp_all add: process_consumer_topic_def)

lemma process_consumer_frame:
  shows "next_ptr (snd (process_consumer e reg cl c s)) = next_ptr s"
    and "live_rd_kafka (snd (process_consumer e reg cl c s)) = live_rd_kafka s"
    and "kafka_sorcery (snd (process_consumer e reg cl c s)) = kafka_sorcery s"
    and "prefix (trace s) (trace (snd (process_consumer e reg cl c s)))"
    and "Suc (rd_kafka_conf_new_calls (trace s)) \<le> rd_kafka_conf_new_calls (trace (snd (process_consumer e reg cl c s)))"
    and "rd_kafka_attempted (trace (snd (process_consumer e reg cl c s))) = rd_kafka_attempted (trace s)"
proof -
  define s1 where "s1 = snd (build_rdkafka_cluster_config e cl s)"
  obtain r where r: "build_rdkafka_cluster_config e cl s = (r, s1)"
    unfolding s1_def by (metis prod.collapse)
  have f: "s1 = s\<lparr>trace := trace s1\<rparr>" "prefix (trace s) (trace s1)"
    "rd_kafka_attempted (trace s1) = rd_kafka_attempted (trace s)"
    "rd_kafka_conf_new_calls (trace s1) = Suc (rd_kafka_conf_new_calls (trace s))"
    unfolding s1_def by (rule build_frame)+
  have h: "next_ptr s1 = next_ptr s" "live_rd_kafka s1 = live_rd_kafka s"
     "kafka_sorcery s1 = kafka_sorcery s"
    by (subst f(1), simp)+
  define s2 where "s2 = emit (Ast_sorcery_retrieve_by_fields KAFKA_TOPIC
             (Some (''consumer'', consumer_oid c)) True) (emit (Rd_kafka_conf_destroy (the r)) s1)"
  define s3 where "s3 = snd (build_rdkafka_cluster_config e cl s2)"
  obtain r3 where r3: "build_rdkafka_cluster_config e cl s2 = (r3, s3)"
    unfolding s3_def by (metis prod.collapse)
  have f3: "s3 = s2\<lparr>trace := trace s3\<rparr>" "prefix (trace s2) (trace s3)"
    "rd_kafka_attempted (trace s3) = rd_kafka_attempted (trace s2)"
    "rd_kafka_conf_new_calls (trace s3) = Suc (rd_kafka_conf_new_calls (trace s2))"
    unfolding s3_def by (rule build_frame)+
  have h2: "next_ptr s2 = next_ptr s" "live_rd_kafka s2 = live_rd_kafka s"
     "kafka_sorcery s2 = kafka_sorcery s" "prefix (trace s) (trace s2)"
     "rd_kafka_attempted (trace s2) = rd_kafka_attempted (trace s)"
     "rd_kafka_conf_new_calls (trace s2) = Suc (rd_kafka_conf_new_calls (trace s))"
    using h f by (simp_all add: s2_def emit_def prefix_order.trans)
  have h3: "next_ptr s3 = next_ptr s" "live_rd_kafka s3 = live_rd_kafka s"
     "kafka_sorcery s3 = kafka_sorcery s"
    using h2 by (subst f3(1), simp)+
  have p3: "prefix (trace s) (trace s3)" using h2(4) f3(2) by (rule prefix_order.trans)
  have px: "\<And>evs. prefix (trace s) (trace s3 @ evs)" "\<And>evs. prefix (trace s) (trace s1 @ evs)"
    using p3 f(2) by (meson prefix_order.trans prefixI)+
  have pc: "process_consumer e reg cl c s =
     (case r of None \<Rightarrow> (- 1, s1)
      | Some config \<Rightarrow>
         (if ast_sorcery_retrieve_ok e (Suc (tick s1)) then
            (if filter (\<lambda>t. consumer_id t = consumer_oid c) (topics reg) \<noteq> [] then
               (case r3 of None \<Rightarrow> (- 1, s3)
                | Some config2 \<Rightarrow> (0, emit (Rd_kafka_conf_destroy config2) s3))
             else (0, s2))
          else (0, emit (Ast_log LOG_WARNING
                 ''Unable to retrieve topics from consumer %s at cluster %s\<newline>''
                 [consumer_oid c, cluster_oid cl])
               (emit (Ast_sorcery_retrieve_by_fields KAFKA_TOPIC
                  (Some (''consumer'', consumer_oid c)) False)
                 (emit (Rd_kafka_conf_destroy config) s1)))))"
  proof (cases r)
    case None
    then show ?thesis unfolding process_consumer_def r by simp
  next
    case (Some config)
    then show ?thesis unfolding process_consumer_def r using r3 unfolding s2_def
      by (simp add: ast_sorcery_retrieve_by_fields_def rd_kafka_conf_destroy_def ast_log_def
          tick_def emit_def split: option.splits)
  qed
  show "next_ptr (snd (process_consumer e reg cl c s)) = next_ptr s"
    unfolding pc using h h2 h3 by (simp add: emit_def split: option.splits)
  show "live_rd_kafka (snd (process_consumer e reg cl c s)) = live_rd_kafka s"
    unfolding pc using h h2 h3 by (simp add: emit_def split: option.splits)
  show "kafka_sorcery (snd (process_consumer e reg cl c s)) = kafka_sorcery s"
    unfolding pc using h h2 h3 by (simp add: emit_def split: option.splits)
  show "prefix (trace s) (trace (snd (process_consumer e reg cl c s)))"
    unfolding pc using f h2 p3 px by (simp add: emit_def split: option.splits)
  show "Suc (rd_kafka_conf_new_calls (trace s)) \<le> rd_kafka_conf_new_calls (trace (snd (process_consumer e reg cl c s)))"
    unfolding pc using f h2 f3 by (simp add: emit_def split: option.splits)
  show "rd_kafka_attempted (trace (snd (process_consumer e reg cl c s))) = rd_kafka_attempted (trace s)"
    unfolding pc using f h2 f3 by (simp add: emit_def split: option.splits)
qed

lemma process_consumers_frame:
  "next_ptr (process_consumers e reg cl cs s) = next_ptr s
   \<and> live_rd_kafka (process_consumers e reg cl cs s) = live_rd_kafka s
   \<and> kafka_sorcery (process_consumers e reg cl cs s) = kafka_sorcery s
   \<and> prefix (trace s) (trace (process_consumers e reg cl cs s))
   \<and> rd_kafka_conf_new_calls (trace s) + length cs
       \<le> rd_kafka_conf_new_calls (trace (process_consumers e reg cl cs s))
   \<and> rd_kafka_attempted (trace (process_consumers e reg cl cs s)) = rd_kafka_attempted (trace s)"
proof (induction cs arbitrary: s)
  case Nil
  then show ?case by simp
next
  case (Cons c cs)
  note f = process_consumer_frame[where e=e and reg=reg and cl=cl and c=c and s=s]
  note ih = Cons.IH[of "snd (process_consumer e reg cl c s)"]
  show ?case using f ih by (auto intro: prefix_order.trans)
qed

lemma process_cluster_done:
  assumes wf: "wf_live s" and d: "process_cluster e reg cl s = Done u s'"
  shows "live_rd_kafka s' = live_rd_kafka s"
    and "next_ptr s \<le> next_ptr s'"
    and "kafka_sorcery s' = kafka_sorcery s"
    and "prefix (trace s) (trace s')"
    and "Ast_sorcery_retrieve_by_fields KAFKA_PRODUCER (Some (''cluster'', cluster_oid cl))
           (ast_sorcery_retrieve_ok e (tick s)) \<in> set (trace s')"
    and "ast_sorcery_retrieve_ok e (tick s) \<Longrightarrow>
           \<forall>p \<in> set (filter (\<lambda>p. producer_cluster_id p = cluster_oid cl) (producers reg)).
             \<exists>ok. Ast_sorcery_retrieve_by_fields KAFKA_TOPIC
                    (Some (''producer'', producer_oid p)) ok \<in> set (trace s')"
proof -
  define ev where "ev = Ast_sorcery_retrieve_by_fields KAFKA_PRODUCER (Some (''cluster'', cluster_oid cl))
           (ast_sorcery_retrieve_ok e (tick s))"
  define s1 where "s1 = emit ev s"
  define found where "found = filter (\<lambda>p. producer_cluster_id p = cluster_oid cl) (producers reg)"
  define cfound where "cfound = filter (\<lambda>c. consumer_cluster_id c = cluster_oid cl) (consumers reg)"
  define first where "first = (if ast_sorcery_retrieve_ok e (tick s)
       then process_producers e reg cl found s1
       else Done () (ast_log LOG_WARNING
                  ''Unable to retrieve producers from cluster %s\<newline>'' [cluster_oid cl] s1))"
  have s1: "next_ptr s1 = next_ptr s" "live_rd_kafka s1 = live_rd_kafka s"
    "kafka_sorcery s1 = kafka_sorcery s" "prefix (trace s) (trace s1)" "ev \<in> set (trace s1)"
    by (simp_all add: s1_def emit_def ev_def)
  have wf1: "wf_live s1" using wf s1 unfolding wf_live_def by simp
  have pc: "process_cluster e reg cl s =
     (case first of
        Fault f s2 \<Rightarrow> Fault f s2
      | Done u s2 \<Rightarrow>
          (case ast_sorcery_retrieve_by_fields e KAFKA_CONSUMER
                  (Some (''cluster'', cluster_oid cl)) cfound s2 of
             (None, s3) \<Rightarrow>
               Done () (ast_log LOG_WARNING
                 ''Unable to retrieve consumers from cluster %s\<newline>'' [cluster_oid cl] s3)
           | (Some found, s3) \<Rightarrow> Done () (process_consumers e reg cl found s3)))"
    unfolding process_cluster_def first_def found_def cfound_def s1_def ev_def
    by (simp add: ast_sorcery_retrieve_by_fields_def)
  from d obtain u2 s2 where f: "first = Done u2 s2"
    and d2: "(case ast_sorcery_retrieve_by_fields e KAFKA_CONSUMER
                  (Some (''cluster'', cluster_oid cl)) cfound s2 of
             (None, s3) \<Rightarrow>
               Done () (ast_log LOG_WARNING
                 ''Unable to retrieve consumers from cluster %s\<newline>'' [cluster_oid cl] s3)
           | (Some found, s3) \<Rightarrow> Done () (process_consumers e reg cl found s3)) = Done u s'"
    unfolding pc by (auto split: outcome.splits)
  have s2: "live_rd_kafka s2 = live_rd_kafka s1" "next_ptr s1 \<le> next_ptr s2"
    "kafka_sorcery s2 = kafka_sorcery s1" "prefix (trace s1) (trace s2)"
    "ast_sorcery_retrieve_ok e (tick s) \<Longrightarrow>
           \<forall>p \<in> set found. \<exists>ok. Ast_sorcery_retrieve_by_fields KAFKA_TOPIC
                    (Some (''producer'', producer_oid p)) ok \<in> set (trace s2)"
  proof -
    show "live_rd_kafka s2 = live_rd_kafka s1" "next_ptr s1 \<le> next_ptr s2"
    "kafka_sorcery s2 = kafka_sorcery s1" "prefix (trace s1) (trace s2)"
    "ast_sorcery_retrieve_ok e (tick s) \<Longrightarrow>
           \<forall>p \<in> set found. \<exists>ok. Ast_sorcery_retrieve_by_fields KAFKA_TOPIC
                    (Some (''producer'', producer_oid p)) ok \<in> set (trace s2)"
    proof (atomize (full), goal_cases)
      case 1
      show ?case
      proof (cases "ast_sorcery_retrieve_ok e (tick s)")
        case True
        then have pd: "process_producers e reg cl found s1 = Done u2 s2" using f by (simp add: first_def)
        note a = process_producers_done[OF wf1 pd]
        note b = process_producers_frame[of s1 e reg cl found, unfolded pd]
        show ?thesis using a b True by (simp add: state_of_def)
      next
        case False
        then show ?thesis using f by (auto simp add: first_def ast_log_def emit_def)
      qed
    qed
  qed
  define s3 where "s3 = emit (Ast_sorcery_retrieve_by_fields KAFKA_CONSUMER
                  (Some (''cluster'', cluster_oid cl)) (ast_sorcery_retrieve_ok e (tick s2))) s2"
  have s3: "live_rd_kafka s3 = live_rd_kafka s2" "next_ptr s3 = next_ptr s2"
    "kafka_sorcery s3 = kafka_sorcery s2" "prefix (trace s2) (trace s3)"
    by (simp_all add: s3_def emit_def)
  have s': "live_rd_kafka s' = live_rd_kafka s3 \<and> next_ptr s' = next_ptr s3
    \<and> kafka_sorcery s' = kafka_sorcery s3 \<and> prefix (trace s3) (trace s')"
  proof (cases "ast_sorcery_retrieve_ok e (tick s2)")
    case True
    then have "s' = process_consumers e reg cl cfound s3" using d2
      by (simp add: ast_sorcery_retrieve_by_fields_def s3_def)
    then show ?thesis using process_consumers_frame[of e reg cl cfound s3] by simp
  next
    case False
    then have "s' = ast_log LOG_WARNING
                 ''Unable to retrieve consumers from cluster %s\<newline>'' [cluster_oid cl] s3" using d2
      by (simp add: ast_sorcery_retrieve_by_fields_def s3_def)
    then show ?thesis by (simp add: ast_log_def emit_def)
  qed
  have p12: "prefix (trace s1) (trace s')"
    using s2(4) s3(4) s' by (meson prefix_order.trans)
  have p2: "prefix (trace s2) (trace s')"
    using s3(4) s' by (meson prefix_order.trans)
  show "live_rd_kafka s' = live_rd_kafka s" using s' s3 s2 s1 by simp
  show "next_ptr s \<le> next_ptr s'" using s' s3 s2 s1 by simp
  show "kafka_sorcery s' = kafka_sorcery s" using s' s3 s2 s1 by simp
  show "prefix (trace s) (trace s')" using s1(4) p12 by (rule prefix_order.trans)
  show "Ast_sorcery_retrieve_by_fields KAFKA_PRODUCER (Some (''cluster'', cluster_oid cl))
           (ast_sorcery_retrieve_ok e (tick s)) \<in> set (trace s')"
    using s1(5) p12 unfolding ev_def by (meson set_mono_prefix subsetD)
  show "ast_sorcery_retrieve_ok e (tick s) \<Longrightarrow>
           \<forall>p \<in> set (filter (\<lambda>p. producer_cluster_id p = cluster_oid cl) (producers reg)).
             \<exists>ok. Ast_sorcery_retrieve_by_fields KAFKA_TOPIC
                    (Some (''producer'', producer_oid p)) ok \<in> set (trace s')"
    using s2(5) p2 unfolding found_def by (meson set_mono_prefix subsetD)
qed

lemma process_clusters_done:
  "wf_live s \<Longrightarrow> process_clusters e reg cls s = Done u s' \<Longrightarrow>
     live_rd_kafka s' = live_rd_kafka s \<and> next_ptr s \<le> next_ptr s'
   \<and> kafka_sorcery s' = kafka_sorcery s \<and> prefix (trace s) (trace s')
   \<and> (\<forall>cl \<in> set cls. \<exists>ok. Ast_sorcery_retrieve_by_fields KAFKA_PRODUCER
          (Some (''cluster'', cluster_oid cl)) ok \<in> set (trace s'))"
proof (induction cls arbitrary: s)
  case Nil
  then show ?case by simp
next
  case (Cons cl cls)
  from Cons.prems(2) obtain u1 s1 where d1: "process_cluster e reg cl s = Done u1 s1"
    and d2: "process_clusters e reg cls s1 = Done u s'"
    by (auto split: outcome.splits)
  note f = process_cluster_done[OF Cons.prems(1) d1]
  have wf1: "wf_live s1" using Cons.prems(1) f(1,2) unfolding wf_live_def by fastforce
  note ih = Cons.IH[OF wf1 d2]
  have "Ast_sorcery_retrieve_by_fields KAFKA_PRODUCER (Some (''cluster'', cluster_oid cl))
           (ast_sorcery_retrieve_ok e (tick s)) \<in> set (trace s')"
    using f(5) ih by (meson set_mono_prefix subsetD)
  then show ?case using ih f by (auto intro: prefix_order.trans)
qed

lemma process_all_clusters_done:
  assumes wf: "wf_live s" and d: "process_all_clusters e s = Done u s'"
  shows "live_rd_kafka s' = live_rd_kafka s"
    and "next_ptr s \<le> next_ptr s'"
    and "kafka_sorcery s' = kafka_sorcery s"
    and "prefix (trace s) (trace s')"
    and "ast_sorcery_retrieve_ok e (tick s) \<Longrightarrow> kafka_sorcery s = Some reg \<Longrightarrow>
          \<forall>cl \<in> set (clusters reg). \<exists>ok. Ast_sorcery_retrieve_by_fields KAFKA_PRODUCER
          (Some (''cluster'', cluster_oid cl)) ok \<in> set (trace s')"
proof -
  from d obtain reg0 where r: "kafka_sorcery s = Some reg0"
    unfolding process_all_clusters_def by (auto split: option.splits)
  define s1 where "s1 = emit (Ast_sorcery_retrieve_by_fields KAFKA_CLUSTER None
      (ast_sorcery_retrieve_ok e (tick s))) s"
  have s1: "next_ptr s1 = next_ptr s" "live_rd_kafka s1 = live_rd_kafka s"
    "kafka_sorcery s1 = kafka_sorcery s" "prefix (trace s) (trace s1)"
    by (simp_all add: s1_def emit_def)
  have wf1: "wf_live s1" using wf s1 unfolding wf_live_def by simp
  show "live_rd_kafka s' = live_rd_kafka s"
    and "next_ptr s \<le> next_ptr s'"
    and "kafka_sorcery s' = kafka_sorcery s"
    and "prefix (trace s) (trace s')"
    and "ast_sorcery_retrieve_ok e (tick s) \<Longrightarrow> kafka_sorcery s = Some reg \<Longrightarrow>
          \<forall>cl \<in> set (clusters reg). \<exists>ok. Ast_sorcery_retrieve_by_fields KAFKA_PRODUCER
          (Some (''cluster'', cluster_oid cl)) ok \<in> set (trace s')"
  proof (atomize (full), goal_cases)
    case 1
    show ?case
    proof (cases "ast_sorcery_retrieve_ok e (tick s)")
      case False
      then have "s' = s1" using d r unfolding process_all_clusters_def s1_def
        by (simp add: ast_sorcery_retrieve_by_fields_def)
      then show ?thesis using s1 False by simp
    next
      case True
      then have pd: "process_clusters e reg0 (clusters reg0) s1 = Done u s'"
        using d r unfolding process_all_clusters_def s1_def
        by (simp add: ast_sorcery_retrieve_by_fields_def)
      note a = process_clusters_done[OF wf1 pd]
      show ?thesis using a s1 r by (auto intro: prefix_order.trans)
    qed
  qed
qed

lemmas exs = env_ok_def state0_def cluster_C1_def producer_P1_def producer_P2_def topic_T1_def topic_T2_def
  conf_C1_P1_T1_def conf_two_producers_def KAFKA_CLUSTER_def KAFKA_TOPIC_def KAFKA_PRODUCER_def KAFKA_CONSUMER_def
  KAFKA_CONFIG_FILENAME_def empty_registry_def RD_KAFKA_PARTITION_UA_def RD_KAFKA_MSG_F_COPY_def RD_KAFKA_RESP_ERR_NO_ERROR_def
  env_topic_fails_def topic_T0_def

lemma state_with_producer_eq:
  "state_with_producer =
     \<lparr>heap = [1 \<mapsto> \<lparr>refcount = 1, body = Kafka_producer (Some 2)\<rparr>], next_ptr = 3,
      live_rd_kafka = [2], live_rd_kafka_topic = [], kafka_sorcery = None,
      trace = [Rd_kafka_conf_new True,
        Rd_kafka_conf_set [] ''metadata.broker.list'' ''broker1:9092'' None,
        Rd_kafka_conf_set [(''metadata.broker.list'', ''broker1:9092'')]
          ''security.protocol'' ''plaintext'' None,
        Rd_kafka_conf_set [(''metadata.broker.list'', ''broker1:9092''),
          (''security.protocol'', ''plaintext'')] ''sasl.mechanism'' ''PLAIN'' None,
        Rd_kafka_conf_set [(''metadata.broker.list'', ''broker1:9092''),
          (''security.protocol'', ''plaintext''), (''sasl.mechanism'', ''PLAIN'')]
          ''sasl.username'' [] None,
        Rd_kafka_conf_set [(''metadata.broker.list'', ''broker1:9092''),
          (''security.protocol'', ''plaintext''), (''sasl.mechanism'', ''PLAIN''),
          (''sasl.username'', [])] ''sasl.password'' [] None,
        Ao2_alloc (Some 1),
        Rd_kafka_new RD_KAFKA_PRODUCER [(''metadata.broker.list'', ''broker1:9092''),
          (''security.protocol'', ''plaintext''), (''sasl.mechanism'', ''PLAIN''),
          (''sasl.username'', []), (''sasl.password'', [])] (Some 2)]\<rparr>"
  by (simp add: state_with_producer_def new_kafka_producer_def build_rdkafka_cluster_config_def
        prims exs eval_nat_numeral)

lemma new_kafka_producer_topic_success:
  assumes "ao2_alloc_ok e (tick s)" and "rd_kafka_topic_conf_new_ok e (tick s + 1)"
      and "producer \<noteq> next_ptr s" and "producer_rd_kafka producer s = Some rk"
      and "rd_kafka_topic_new_err e (tick s + 4) (topic t) = None"
  shows "new_kafka_producer_topic e producer t s =
     Done (Some (next_ptr s))
       (s\<lparr>heap := (heap s)(next_ptr s \<mapsto>
               \<lparr>refcount = 2, body = Kafka_producer_topic (Some (Suc (next_ptr s)))\<rparr>),
          next_ptr := Suc (Suc (next_ptr s)),
          live_rd_kafka_topic := Suc (next_ptr s) # live_rd_kafka_topic s,
          trace := trace s @
            [Ao2_alloc (Some (next_ptr s)), Rd_kafka_topic_conf_new True,
             Rd_kafka_topic_conf_set_opaque (next_ptr s), Ao2_ref (next_ptr s) 1,
             Rd_kafka_topic_new rk (topic t) (Some (Suc (next_ptr s)))]\<rparr>)"
  using assms
  by (simp add: new_kafka_producer_topic_def prims eval_nat_numeral split: option.splits ao2_body.splits)

lemma new_kafka_producer_topic_SomeD:
  assumes d: "new_kafka_producer_topic e producer t s = Done (Some tp) s1"
  shows "ao2_alloc_ok e (tick s) \<and> rd_kafka_topic_conf_new_ok e (tick s + 1)
      \<and> producer \<noteq> next_ptr s \<and> producer_rd_kafka producer s \<noteq> None
      \<and> rd_kafka_topic_new_err e (tick s + 4) (topic t) = None"
proof -
  have a: "ao2_alloc_ok e (tick s)"
    using d by (auto simp add: new_kafka_producer_topic_def ao2_alloc_def split: if_splits)
  have b: "rd_kafka_topic_conf_new_ok e (tick s + 1)"
    using d a by (auto simp add: new_kafka_producer_topic_def ao2_alloc_def rd_kafka_topic_conf_new_def
        set_body_def emit_def tick_def split: if_splits)
  have c: "producer \<noteq> next_ptr s"
  proof
    assume "producer = next_ptr s"
    then show False using d a b
      by (simp add: new_kafka_producer_topic_def prims)
  qed
  have c2: "producer_rd_kafka producer s \<noteq> None"
  proof
    assume "producer_rd_kafka producer s = None"
    then show False using d a b c
      by (simp add: new_kafka_producer_topic_def prims split: option.splits ao2_body.splits)
  qed
  then obtain rk where rk: "producer_rd_kafka producer s = Some rk" by blast
  have e: "rd_kafka_topic_new_err e (tick s + 4) (topic t) = None"
  proof (cases "rd_kafka_topic_new_err e (tick s + 4) (topic t)")
    case None
    then show ?thesis .
  next
    case (Some errstr)
    then show ?thesis using d a b c rk
      by (simp add: new_kafka_producer_topic_def prims eval_nat_numeral split: option.splits ao2_body.splits)
  qed
  show ?thesis using a b c c2 e by simp
qed

lemma state_with_topic_run:
  "new_kafka_producer_topic env_ok 1 topic_T1 state_with_producer = Done (Some 3) state_with_topic"
  unfolding state_with_topic_def
  by (simp add: state_with_producer_eq new_kafka_producer_topic_def prims exs state_of_def eval_nat_numeral)

lemma state0_wf: "wf_live state0" by (simp add: wf_live_def state0_def)

lemmas exs2 = env_strict_def cluster_no_brokers_def cluster_bogus_protocol_def

lemma new_kafka_producer_build_fails:
  assumes "fst (build_rdkafka_cluster_config e cl s) = None"
  shows "new_kafka_producer e cl p s = (None, snd (build_rdkafka_cluster_config e cl s))"
proof -
  obtain r s1 where r: "build_rdkafka_cluster_config e cl s = (r, s1)" by fastforce
  then show ?thesis using assms by (simp add: new_kafka_producer_def)
qed

lemmas run_defs = load_module_def sorcery_object_register_def register_cluster_fields_def
  register_topic_fields_def ast_sorcery_object_field_register_def ast_sorcery_unref_def
  ast_sorcery_load_def decline_def
  process_all_clusters_def process_cluster_def process_producer_def
  process_producer_topic_def process_consumer_def new_kafka_producer_topic_def
  new_kafka_producer_def build_rdkafka_cluster_config_def

lemma state_loaded_facts:
  "result_of (load_module env_ok conf_C1_P1_T1 state0) = Some AST_MODULE_LOAD_SUCCESS"
  "rd_kafka_created (trace state_loaded) = [2]"
  "rd_kafka_destroyed (trace state_loaded) = [2]"
  "rd_kafka_topic_created (trace state_loaded) = [(2, ''orders'', 4)]"
  "rd_kafka_topic_destroyed (trace state_loaded) = []"
  "live_rd_kafka state_loaded = []"
  "live_rd_kafka_topic state_loaded = [4]"
  "next_ptr state_loaded = 5"
  "kafka_sorcery state_loaded = Some conf_C1_P1_T1"
  unfolding state_loaded_def
  by (simp_all add: run_defs prims exs result_of_def state_of_def eval_nat_numeral)

lemmas exs3 = env_observer_fails_def env_first_connection_fails_def

lemma same_resources_refl [simp]: "same_resources s s"
  by (simp add: same_resources_def)

lemma same_resources_trans: "same_resources s s1 \<Longrightarrow> same_resources s1 s2 \<Longrightarrow> same_resources s s2"
  by (simp add: same_resources_def)

lemma same_resources_emit [simp]: "same_resources s (emit ev s1) = same_resources s s1"
  by (simp add: same_resources_def emit_def)

lemma same_resources_sorcery [simp]:
  "same_resources s (s1\<lparr>kafka_sorcery := r\<rparr>) = same_resources s s1"
  by (simp add: same_resources_def)

lemma sorcery_object_register_same:
  "same_resources s (snd (sorcery_object_register e ty s1)) = same_resources s s1"
  by (simp add: sorcery_object_register_def Let_def ast_log_def
        ast_sorcery_object_field_register_def)

lemma sorcery_object_register_fst:
  "fst (sorcery_object_register e ty s) = (if ast_sorcery_object_register_ok e ty then 0 else - 1)"
  by (simp add: sorcery_object_register_def Let_def)

lemma register_cluster_fields_same [simp]:
  "same_resources s (register_cluster_fields s1) = same_resources s s1"
  by (simp add: register_cluster_fields_def ast_sorcery_object_field_register_def)

lemma register_topic_fields_same [simp]:
  "same_resources s (register_topic_fields s1) = same_resources s s1"
  by (simp add: register_topic_fields_def ast_sorcery_object_field_register_def)

lemma load_module_cases:
  assumes d: "load_module e file s = Done r s'"
  shows "same_resources s s'
       \<or> (\<exists>pre u s5. same_resources s pre \<and> process_all_clusters e pre = Done u s5
              \<and> s' = emit Ast_cli_register_multiple s5)"
proof -
  define a0 where "a0 = emit (Ast_sorcery_open True) (s\<lparr>kafka_sorcery := Some empty_registry\<rparr>)"
  define s1 where "s1 = snd (sorcery_object_register e KAFKA_CLUSTER a0)"
  define s2 where "s2 = snd (sorcery_object_register e KAFKA_TOPIC (register_cluster_fields s1))"
  define s3 where "s3 = snd (sorcery_object_register e KAFKA_PRODUCER (register_topic_fields s2))"
  define a3 where "a3 = ast_sorcery_object_field_register KAFKA_PRODUCER ''cluster'' [] s3"
  define s4 where "s4 = snd (sorcery_object_register e KAFKA_CONSUMER
                (emit (Ast_sorcery_observer_add KAFKA_PRODUCER True) a3))"
  define pre where "pre = ast_sorcery_load file
                (ast_sorcery_object_field_register KAFKA_CONSUMER ''cluster'' [] s4)"
  have r1: "same_resources s s1" unfolding s1_def a0_def by (simp add: sorcery_object_register_same)
  have r2: "same_resources s s2" unfolding s2_def using r1 by (simp add: sorcery_object_register_same)
  have r3: "same_resources s s3" unfolding s3_def using r2 by (simp add: sorcery_object_register_same)
  have ra3: "same_resources s a3" unfolding a3_def using r3
    by (simp add: ast_sorcery_object_field_register_def)
  have r4: "same_resources s s4" unfolding s4_def using ra3 by (simp add: sorcery_object_register_same)
  have rp: "same_resources s pre" unfolding pre_def using r4
    by (simp add: ast_sorcery_object_field_register_def ast_sorcery_load_def)
  have lm: "load_module e file s =
     (if \<not> ast_sorcery_open_ok e then
        Done AST_MODULE_LOAD_DECLINE
          (ast_log LOG_ERROR ''Failed to open Kafka sorcery.\<newline>'' []
             (emit (Ast_sorcery_open False) (s\<lparr>kafka_sorcery := None\<rparr>)))
      else if \<not> ast_sorcery_object_register_ok e KAFKA_CLUSTER then decline s1
      else if \<not> ast_sorcery_object_register_ok e KAFKA_TOPIC then decline s2
      else if \<not> ast_sorcery_object_register_ok e KAFKA_PRODUCER then decline s3
      else if \<not> ast_sorcery_observer_add_ok e KAFKA_PRODUCER then
        decline (ast_log LOG_ERROR
          ''Failed to register observer for '%s' with Kafka sorcery.\<newline>'' [KAFKA_PRODUCER]
          (emit (Ast_sorcery_observer_add KAFKA_PRODUCER False) a3))
      else if \<not> ast_sorcery_object_register_ok e KAFKA_CONSUMER then decline s4
      else (case process_all_clusters e pre of
              Fault f s5 \<Rightarrow> Fault f s5
            | Done u s5 \<Rightarrow> Done AST_MODULE_LOAD_SUCCESS (emit Ast_cli_register_multiple s5)))"
    unfolding load_module_def s1_def s2_def s3_def s4_def a0_def a3_def pre_def
    by (simp add: case_prod_beta sorcery_object_register_fst)
  show ?thesis
    using d r1 r2 r3 ra3 r4 rp unfolding lm
    by (auto simp add: decline_def ast_log_def ast_sorcery_unref_def
          split: if_splits outcome.splits)
qed

lemma load_module_decline_iff:
  "result_of (load_module e file s) = Some AST_MODULE_LOAD_DECLINE \<longleftrightarrow>
     (\<not> ast_sorcery_open_ok e
      \<or> \<not> ast_sorcery_object_register_ok e KAFKA_CLUSTER
      \<or> \<not> ast_sorcery_object_register_ok e KAFKA_TOPIC
      \<or> \<not> ast_sorcery_object_register_ok e KAFKA_PRODUCER
      \<or> \<not> ast_sorcery_observer_add_ok e KAFKA_PRODUCER
      \<or> \<not> ast_sorcery_object_register_ok e KAFKA_CONSUMER)"
  unfolding load_module_def
  by (simp add: case_prod_beta sorcery_object_register_fst decline_def result_of_def
        split: outcome.splits)

lemma load_module_done:
  assumes wf: "wf_live s" and d: "load_module e file s = Done r s'"
  shows "live_rd_kafka s' = live_rd_kafka s"
proof -
  from load_module_cases[OF d] show ?thesis
  proof
    assume "same_resources s s'"
    then show ?thesis by (simp add: same_resources_def)
  next
    assume "\<exists>pre u s5. same_resources s pre \<and> process_all_clusters e pre = Done u s5
              \<and> s' = emit Ast_cli_register_multiple s5"
    then obtain pre u s5 where p: "same_resources s pre"
       and q: "process_all_clusters e pre = Done u s5"
       and s': "s' = emit Ast_cli_register_multiple s5" by blast
    have wfp: "wf_live pre" using wf p by (simp add: wf_live_def same_resources_def)
    have "live_rd_kafka s5 = live_rd_kafka pre" by (rule process_all_clusters_done(1)[OF wfp q])
    then show ?thesis using p s' by (simp add: same_resources_def emit_def)
  qed
qed

lemma process_producers_attempted:
  "process_producers e reg cl ps s = Done u s' \<Longrightarrow>
     \<forall>p \<in> set ps. \<exists>ok. Ast_sorcery_retrieve_by_fields KAFKA_TOPIC
          (Some (''producer'', producer_oid p)) ok \<in> set (trace s')"
proof (induction ps arbitrary: s)
  case Nil
  then show ?case by simp
next
  case (Cons p ps)
  from Cons.prems obtain rc s1 where d1: "process_producer e reg cl p s = Done rc s1"
    and d2: "process_producers e reg cl ps s1 = Done u s'"
    by (auto split: outcome.splits)
  have s1: "state_of (process_producer e reg cl p s) = s1" using d1 by (simp add: state_of_def)
  note f = process_producer_any[where e=e and reg=reg and cl=cl and p=p and s=s, unfolded s1]
  note ih = Cons.IH[OF d2]
  have px: "prefix (trace s1) (trace s')"
    using process_producers_frame[of s1 e reg cl ps] d2 by (simp add: state_of_def)
  have "Ast_sorcery_retrieve_by_fields KAFKA_TOPIC (Some (''producer'', producer_oid p))
           (ast_sorcery_retrieve_ok e (tick s)) \<in> set (trace s')"
    using f(5) px by (meson set_mono_prefix subsetD)
  then show ?case using ih by auto
qed

lemma process_cluster_trace:
  assumes d: "process_cluster e reg cl s = Done u s'"
  shows "prefix (trace s) (trace s')"
    and "Ast_sorcery_retrieve_by_fields KAFKA_PRODUCER (Some (''cluster'', cluster_oid cl))
           (ast_sorcery_retrieve_ok e (tick s)) \<in> set (trace s')"
proof -
  define ev where "ev = Ast_sorcery_retrieve_by_fields KAFKA_PRODUCER (Some (''cluster'', cluster_oid cl))
           (ast_sorcery_retrieve_ok e (tick s))"
  define s1 where "s1 = emit ev s"
  define found where "found = filter (\<lambda>p. producer_cluster_id p = cluster_oid cl) (producers reg)"
  define cfound where "cfound = filter (\<lambda>c. consumer_cluster_id c = cluster_oid cl) (consumers reg)"
  define first where "first = (if ast_sorcery_retrieve_ok e (tick s)
       then process_producers e reg cl found s1
       else Done () (ast_log LOG_WARNING
                  ''Unable to retrieve producers from cluster %s\<newline>'' [cluster_oid cl] s1))"
  have s1: "prefix (trace s) (trace s1)" "ev \<in> set (trace s1)"
    by (simp_all add: s1_def emit_def ev_def)
  have pc: "process_cluster e reg cl s =
     (case first of
        Fault f s2 \<Rightarrow> Fault f s2
      | Done u s2 \<Rightarrow>
          (case ast_sorcery_retrieve_by_fields e KAFKA_CONSUMER
                  (Some (''cluster'', cluster_oid cl)) cfound s2 of
             (None, s3) \<Rightarrow>
               Done () (ast_log LOG_WARNING
                 ''Unable to retrieve consumers from cluster %s\<newline>'' [cluster_oid cl] s3)
           | (Some found, s3) \<Rightarrow> Done () (process_consumers e reg cl found s3)))"
    unfolding process_cluster_def first_def found_def cfound_def s1_def ev_def
    by (simp add: ast_sorcery_retrieve_by_fields_def)
  from d obtain u2 s2 where f: "first = Done u2 s2"
    and d2: "(case ast_sorcery_retrieve_by_fields e KAFKA_CONSUMER
                  (Some (''cluster'', cluster_oid cl)) cfound s2 of
             (None, s3) \<Rightarrow>
               Done () (ast_log LOG_WARNING
                 ''Unable to retrieve consumers from cluster %s\<newline>'' [cluster_oid cl] s3)
           | (Some found, s3) \<Rightarrow> Done () (process_consumers e reg cl found s3)) = Done u s'"
    unfolding pc by (auto split: outcome.splits)
  have s2: "prefix (trace s1) (trace s2)"
  proof (cases "ast_sorcery_retrieve_ok e (tick s)")
    case True
    then have pd: "process_producers e reg cl found s1 = Done u2 s2" using f by (simp add: first_def)
    show ?thesis using process_producers_frame[of s1 e reg cl found, unfolded pd]
      by (simp add: state_of_def)
  next
    case False
    then show ?thesis using f by (auto simp add: first_def ast_log_def emit_def)
  qed
  define s3 where "s3 = emit (Ast_sorcery_retrieve_by_fields KAFKA_CONSUMER
                  (Some (''cluster'', cluster_oid cl)) (ast_sorcery_retrieve_ok e (tick s2))) s2"
  have s3: "prefix (trace s2) (trace s3)" by (simp add: s3_def emit_def)
  have s': "prefix (trace s3) (trace s')"
  proof (cases "ast_sorcery_retrieve_ok e (tick s2)")
    case True
    then have "s' = process_consumers e reg cl cfound s3" using d2
      by (simp add: ast_sorcery_retrieve_by_fields_def s3_def)
    then show ?thesis using process_consumers_frame[of e reg cl cfound s3] by simp
  next
    case False
    then have "s' = ast_log LOG_WARNING
                 ''Unable to retrieve consumers from cluster %s\<newline>'' [cluster_oid cl] s3" using d2
      by (simp add: ast_sorcery_retrieve_by_fields_def s3_def)
    then show ?thesis by (simp add: ast_log_def emit_def)
  qed
  have p1: "prefix (trace s1) (trace s')"
    using s2 s3 s' by (meson prefix_order.trans)
  show "prefix (trace s) (trace s')" using s1(1) p1 by (rule prefix_order.trans)
  show "Ast_sorcery_retrieve_by_fields KAFKA_PRODUCER (Some (''cluster'', cluster_oid cl))
           (ast_sorcery_retrieve_ok e (tick s)) \<in> set (trace s')"
    using s1(2) p1 unfolding ev_def by (meson set_mono_prefix subsetD)
qed

lemma process_clusters_attempted:
  "process_clusters e reg cls s = Done u s' \<Longrightarrow>
     prefix (trace s) (trace s')
   \<and> (\<forall>cl \<in> set cls. \<exists>ok. Ast_sorcery_retrieve_by_fields KAFKA_PRODUCER
          (Some (''cluster'', cluster_oid cl)) ok \<in> set (trace s'))"
proof (induction cls arbitrary: s)
  case Nil
  then show ?case by simp
next
  case (Cons cl cls)
  from Cons.prems obtain u1 s1 where d1: "process_cluster e reg cl s = Done u1 s1"
    and d2: "process_clusters e reg cls s1 = Done u s'"
    by (auto split: outcome.splits)
  note f = process_cluster_trace[OF d1]
  note ih = Cons.IH[OF d2]
  have "Ast_sorcery_retrieve_by_fields KAFKA_PRODUCER (Some (''cluster'', cluster_oid cl))
           (ast_sorcery_retrieve_ok e (tick s)) \<in> set (trace s')"
    using f(2) ih by (meson set_mono_prefix subsetD)
  then show ?case using ih f by (auto intro: prefix_order.trans)
qed

lemma first_connection_fails_run:
  "result_of (process_producer env_first_connection_fails conf_two_producers cluster_C1 producer_P1 state0)
     = Some (- 1)"
  "process_producers env_first_connection_fails conf_two_producers cluster_C1
       [producer_P1, producer_P2] state0
     = Done () (state_of (process_producers env_first_connection_fails conf_two_producers cluster_C1
       [producer_P1, producer_P2] state0))"
  "rd_kafka_topic_created (trace (state_of (process_producers env_first_connection_fails
       conf_two_producers cluster_C1 [producer_P1, producer_P2] state0))) = [(3, ''events'', 5)]"
  by (simp_all add: process_producer_def process_producer_topic_def new_kafka_producer_topic_def
      new_kafka_producer_def build_rdkafka_cluster_config_def prims exs exs3 result_of_def
      state_of_def eval_nat_numeral)

text \<open>
  A pass stops short only inside the bind of a topic: every fault of
  \<^verbatim>\<open>process_producer\<close>, \<^verbatim>\<open>process_cluster\<close>, the loops over them and \<^verbatim>\<open>load_module\<close>
  is a fault of some \<^verbatim>\<open>process_producer_topic\<close>.
\<close>

lemma process_producer_topics_fault:
  "process_producer_topics e producer ts s = Fault f s' \<Longrightarrow>
     \<exists>t s0. t \<in> set ts \<and> process_producer_topic e producer t s0 = Fault f s'"
proof (induction ts arbitrary: s)
  case Nil
  then show ?case by simp
next
  case (Cons t ts)
  show ?case
  proof (cases "process_producer_topic e producer t s")
    case (Fault x s1)
    then have "process_producer_topic e producer t s = Fault f s'" using Cons.prems by simp
    then show ?thesis by auto
  next
    case (Done u s1)
    then have "process_producer_topics e producer ts s1 = Fault f s'" using Cons.prems by simp
    from Cons.IH[OF this] show ?thesis by auto
  qed
qed

lemma process_producer_returns:
  "\<not> ast_sorcery_retrieve_ok e (tick s) \<Longrightarrow> result_of (process_producer e reg cl p s) = Some 0"
  "filter (\<lambda>t. producer_id t = producer_oid p) (topics reg) = [] \<Longrightarrow>
     result_of (process_producer e reg cl p s) = Some 0"
  "ast_sorcery_retrieve_ok e (tick s) \<Longrightarrow>
   filter (\<lambda>t. producer_id t = producer_oid p) (topics reg) \<noteq> [] \<Longrightarrow>
   fst (new_kafka_producer e cl p
          (emit (Ast_sorcery_retrieve_by_fields KAFKA_TOPIC (Some (''producer'', producer_oid p)) True) s))
     = None \<Longrightarrow>
     result_of (process_producer e reg cl p s) = Some (- 1)"
  by (simp_all add: process_producer_def ast_sorcery_retrieve_by_fields_def result_of_def
        case_prod_beta split: option.splits)

lemma process_producer_fault:
  assumes "process_producer e reg cl p s = Fault f s'"
  shows "\<exists>producer t s0. t \<in> set (topics reg) \<and> producer_id t = producer_oid p
           \<and> process_producer_topic e producer t s0 = Fault f s'"
proof -
  define found where "found = filter (\<lambda>t. producer_id t = producer_oid p) (topics reg)"
  define s1 where "s1 = emit (Ast_sorcery_retrieve_by_fields KAFKA_TOPIC
      (Some (''producer'', producer_oid p)) True) s"
  obtain r2 s2 where n: "new_kafka_producer e cl p s1 = (r2, s2)" by fastforce
  have ok: "ast_sorcery_retrieve_ok e (tick s)"
    using assms process_producer_returns(1)[of e s reg cl p]
    by (auto simp add: result_of_def)
  have ne: "found \<noteq> []"
    using assms process_producer_returns(2)[of p reg e cl s] unfolding found_def
    by (auto simp add: result_of_def)
  have pp: "process_producer e reg cl p s =
          (case r2 of None \<Rightarrow> Done (- 1) s2
           | Some producer \<Rightarrow> (case process_producer_topics e producer found s2 of
                   Fault f s3 \<Rightarrow> Fault f s3
                 | Done u s3 \<Rightarrow> Done 0 (ao2_ref producer (- 1) s3)))"
    using ok ne n unfolding found_def s1_def
    by (simp add: process_producer_def ast_sorcery_retrieve_by_fields_def)
  from assms obtain producer where "process_producer_topics e producer found s2 = Fault f s'"
    unfolding pp by (auto split: option.splits outcome.splits)
  from process_producer_topics_fault[OF this] show ?thesis unfolding found_def by auto
qed

lemma process_producers_fault:
  "process_producers e reg cl ps s = Fault f s' \<Longrightarrow>
     \<exists>producer t s0. t \<in> set (topics reg)
           \<and> process_producer_topic e producer t s0 = Fault f s'"
proof (induction ps arbitrary: s)
  case Nil
  then show ?case by simp
next
  case (Cons p ps)
  show ?case
  proof (cases "process_producer e reg cl p s")
    case (Fault x s1)
    then have "process_producer e reg cl p s = Fault f s'" using Cons.prems by simp
    from process_producer_fault[OF this] show ?thesis by blast
  next
    case (Done rc s1)
    then have "process_producers e reg cl ps s1 = Fault f s'" using Cons.prems by simp
    from Cons.IH[OF this] show ?thesis .
  qed
qed

lemma process_cluster_unfold:
  "process_cluster e reg cl s =
     (case (if ast_sorcery_retrieve_ok e (tick s)
            then process_producers e reg cl
                   (filter (\<lambda>p. producer_cluster_id p = cluster_oid cl) (producers reg))
                   (emit (Ast_sorcery_retrieve_by_fields KAFKA_PRODUCER
                            (Some (''cluster'', cluster_oid cl)) True) s)
            else Done () (ast_log LOG_WARNING
                   ''Unable to retrieve producers from cluster %s\<newline>'' [cluster_oid cl]
                   (emit (Ast_sorcery_retrieve_by_fields KAFKA_PRODUCER
                            (Some (''cluster'', cluster_oid cl)) False) s))) of
        Fault f s2 \<Rightarrow> Fault f s2
      | Done u s2 \<Rightarrow>
          Done ()
            (if ast_sorcery_retrieve_ok e (tick s2)
             then process_consumers e reg cl
                    (filter (\<lambda>c. consumer_cluster_id c = cluster_oid cl) (consumers reg))
                    (emit (Ast_sorcery_retrieve_by_fields KAFKA_CONSUMER
                             (Some (''cluster'', cluster_oid cl)) True) s2)
             else ast_log LOG_WARNING
                    ''Unable to retrieve consumers from cluster %s\<newline>'' [cluster_oid cl]
                    (emit (Ast_sorcery_retrieve_by_fields KAFKA_CONSUMER
                             (Some (''cluster'', cluster_oid cl)) False) s2)))"
  by (simp add: process_cluster_def ast_sorcery_retrieve_by_fields_def split: outcome.splits)

lemma process_cluster_fault:
  assumes "process_cluster e reg cl s = Fault f s'"
  shows "\<exists>producer t s0. t \<in> set (topics reg)
           \<and> process_producer_topic e producer t s0 = Fault f s'"
proof -
  from assms have "process_producers e reg cl
                   (filter (\<lambda>p. producer_cluster_id p = cluster_oid cl) (producers reg))
                   (emit (Ast_sorcery_retrieve_by_fields KAFKA_PRODUCER
                            (Some (''cluster'', cluster_oid cl)) True) s) = Fault f s'"
    unfolding process_cluster_unfold by (auto split: if_splits outcome.splits)
  then show ?thesis by (rule process_producers_fault)
qed

lemma process_clusters_fault:
  "process_clusters e reg cls s = Fault f s' \<Longrightarrow>
     \<exists>producer t s0. t \<in> set (topics reg)
           \<and> process_producer_topic e producer t s0 = Fault f s'"
proof (induction cls arbitrary: s)
  case Nil
  then show ?case by simp
next
  case (Cons cl cls)
  show ?case
  proof (cases "process_cluster e reg cl s")
    case (Fault x s1)
    then have "process_cluster e reg cl s = Fault f s'" using Cons.prems by simp
    then show ?thesis by (rule process_cluster_fault)
  next
    case (Done u s1)
    then have "process_clusters e reg cls s1 = Fault f s'" using Cons.prems by simp
    from Cons.IH[OF this] show ?thesis .
  qed
qed


lemma process_all_clusters_fault:
  assumes "process_all_clusters e s = Fault f s'" and "kafka_sorcery s = Some reg"
  shows "\<exists>producer t s0. t \<in> set (topics reg)
           \<and> process_producer_topic e producer t s0 = Fault f s'"
proof -
  from assms have "\<exists>found s1. process_clusters e reg found s1 = Fault f s'"
    by (auto simp add: process_all_clusters_def ast_sorcery_retrieve_by_fields_def
          split: if_splits)
  then show ?thesis using process_clusters_fault by blast
qed

lemma load_module_fault:
  assumes d: "load_module e file s = Fault f s'"
  shows "\<exists>producer t s0. t \<in> set (topics file)
           \<and> process_producer_topic e producer t s0 = Fault f s'"
proof -
  define a0 where "a0 = emit (Ast_sorcery_open True) (s\<lparr>kafka_sorcery := Some empty_registry\<rparr>)"
  define s1 where "s1 = snd (sorcery_object_register e KAFKA_CLUSTER a0)"
  define s2 where "s2 = snd (sorcery_object_register e KAFKA_TOPIC (register_cluster_fields s1))"
  define s3 where "s3 = snd (sorcery_object_register e KAFKA_PRODUCER (register_topic_fields s2))"
  define a3 where "a3 = ast_sorcery_object_field_register KAFKA_PRODUCER ''cluster'' [] s3"
  define s4 where "s4 = snd (sorcery_object_register e KAFKA_CONSUMER
                (emit (Ast_sorcery_observer_add KAFKA_PRODUCER True) a3))"
  define pre where "pre = ast_sorcery_load file
                (ast_sorcery_object_field_register KAFKA_CONSUMER ''cluster'' [] s4)"
  have k: "kafka_sorcery pre = Some file"
    unfolding pre_def by (simp add: ast_sorcery_load_def emit_def)
  have lm: "load_module e file s =
     (if \<not> ast_sorcery_open_ok e then
        Done AST_MODULE_LOAD_DECLINE
          (ast_log LOG_ERROR ''Failed to open Kafka sorcery.\<newline>'' []
             (emit (Ast_sorcery_open False) (s\<lparr>kafka_sorcery := None\<rparr>)))
      else if \<not> ast_sorcery_object_register_ok e KAFKA_CLUSTER then decline s1
      else if \<not> ast_sorcery_object_register_ok e KAFKA_TOPIC then decline s2
      else if \<not> ast_sorcery_object_register_ok e KAFKA_PRODUCER then decline s3
      else if \<not> ast_sorcery_observer_add_ok e KAFKA_PRODUCER then
        decline (ast_log LOG_ERROR
          ''Failed to register observer for '%s' with Kafka sorcery.\<newline>'' [KAFKA_PRODUCER]
          (emit (Ast_sorcery_observer_add KAFKA_PRODUCER False) a3))
      else if \<not> ast_sorcery_object_register_ok e KAFKA_CONSUMER then decline s4
      else (case process_all_clusters e pre of
              Fault f s5 \<Rightarrow> Fault f s5
            | Done u s5 \<Rightarrow> Done AST_MODULE_LOAD_SUCCESS (emit Ast_cli_register_multiple s5)))"
    unfolding load_module_def s1_def s2_def s3_def s4_def a0_def a3_def pre_def
    by (simp add: case_prod_beta sorcery_object_register_fst)
  from d have "process_all_clusters e pre = Fault f s'"
    unfolding lm by (auto simp add: decline_def split: if_splits outcome.splits)
  from process_all_clusters_fault[OF this k] show ?thesis .
qed

lemma process_cluster_consumers:
  assumes d: "process_cluster e reg cl s = Done u s'"
  shows "\<exists>s2. (if ast_sorcery_retrieve_ok e (tick s)
               then process_producers e reg cl
                      (filter (\<lambda>p. producer_cluster_id p = cluster_oid cl) (producers reg))
                      (emit (Ast_sorcery_retrieve_by_fields KAFKA_PRODUCER
                               (Some (''cluster'', cluster_oid cl)) True) s) = Done () s2
               else s2 = ast_log LOG_WARNING
                      ''Unable to retrieve producers from cluster %s\<newline>'' [cluster_oid cl]
                      (emit (Ast_sorcery_retrieve_by_fields KAFKA_PRODUCER
                               (Some (''cluster'', cluster_oid cl)) False) s))
          \<and> s' = (if ast_sorcery_retrieve_ok e (tick s2)
                  then process_consumers e reg cl
                         (filter (\<lambda>c. consumer_cluster_id c = cluster_oid cl) (consumers reg))
                         (emit (Ast_sorcery_retrieve_by_fields KAFKA_CONSUMER
                                  (Some (''cluster'', cluster_oid cl)) True) s2)
                  else ast_log LOG_WARNING
                         ''Unable to retrieve consumers from cluster %s\<newline>'' [cluster_oid cl]
                         (emit (Ast_sorcery_retrieve_by_fields KAFKA_CONSUMER
                                  (Some (''cluster'', cluster_oid cl)) False) s2))"
proof -
  define s1 where "s1 = emit (Ast_sorcery_retrieve_by_fields KAFKA_PRODUCER
                            (Some (''cluster'', cluster_oid cl)) True) s"
  define found where "found = filter (\<lambda>p. producer_cluster_id p = cluster_oid cl) (producers reg)"
  define first where "first = (if ast_sorcery_retrieve_ok e (tick s)
            then process_producers e reg cl found s1
            else Done () (ast_log LOG_WARNING
                   ''Unable to retrieve producers from cluster %s\<newline>'' [cluster_oid cl]
                   (emit (Ast_sorcery_retrieve_by_fields KAFKA_PRODUCER
                            (Some (''cluster'', cluster_oid cl)) False) s)))"
  from d obtain u2 s2 where f: "first = Done u2 s2"
    and s': "s' = (if ast_sorcery_retrieve_ok e (tick s2)
                  then process_consumers e reg cl
                         (filter (\<lambda>c. consumer_cluster_id c = cluster_oid cl) (consumers reg))
                         (emit (Ast_sorcery_retrieve_by_fields KAFKA_CONSUMER
                                  (Some (''cluster'', cluster_oid cl)) True) s2)
                  else ast_log LOG_WARNING
                         ''Unable to retrieve consumers from cluster %s\<newline>'' [cluster_oid cl]
                         (emit (Ast_sorcery_retrieve_by_fields KAFKA_CONSUMER
                                  (Some (''cluster'', cluster_oid cl)) False) s2))"
    unfolding process_cluster_unfold first_def found_def s1_def
    by (cases "(if ast_sorcery_retrieve_ok e (tick s)
            then process_producers e reg cl
                   (filter (\<lambda>p. producer_cluster_id p = cluster_oid cl) (producers reg))
                   (emit (Ast_sorcery_retrieve_by_fields KAFKA_PRODUCER
                            (Some (''cluster'', cluster_oid cl)) True) s)
            else Done () (ast_log LOG_WARNING
                   ''Unable to retrieve producers from cluster %s\<newline>'' [cluster_oid cl]
                   (emit (Ast_sorcery_retrieve_by_fields KAFKA_PRODUCER
                            (Some (''cluster'', cluster_oid cl)) False) s)))") auto
  have "if ast_sorcery_retrieve_ok e (tick s)
        then process_producers e reg cl found s1 = Done () s2
        else s2 = ast_log LOG_WARNING
                      ''Unable to retrieve producers from cluster %s\<newline>'' [cluster_oid cl]
                      (emit (Ast_sorcery_retrieve_by_fields KAFKA_PRODUCER
                               (Some (''cluster'', cluster_oid cl)) False) s)"
    using f by (auto simp add: first_def)
  then show ?thesis using s' unfolding found_def s1_def by blast
qed

lemma process_cluster_consumers_retrieved:
  assumes d: "process_cluster e reg cl s = Done u s'"
  shows "\<exists>ok. Ast_sorcery_retrieve_by_fields KAFKA_CONSUMER
           (Some (''cluster'', cluster_oid cl)) ok \<in> set (trace s')"
proof -
  from process_cluster_consumers[OF d] obtain s2 where
    s': "s' = (if ast_sorcery_retrieve_ok e (tick s2)
                  then process_consumers e reg cl
                         (filter (\<lambda>c. consumer_cluster_id c = cluster_oid cl) (consumers reg))
                         (emit (Ast_sorcery_retrieve_by_fields KAFKA_CONSUMER
                                  (Some (''cluster'', cluster_oid cl)) True) s2)
                  else ast_log LOG_WARNING
                         ''Unable to retrieve consumers from cluster %s\<newline>'' [cluster_oid cl]
                         (emit (Ast_sorcery_retrieve_by_fields KAFKA_CONSUMER
                                  (Some (''cluster'', cluster_oid cl)) False) s2))"
    by blast
  show ?thesis
  proof (cases "ast_sorcery_retrieve_ok e (tick s2)")
    case True
    define s3 where "s3 = emit (Ast_sorcery_retrieve_by_fields KAFKA_CONSUMER
                                  (Some (''cluster'', cluster_oid cl)) True) s2"
    have "s' = process_consumers e reg cl
                 (filter (\<lambda>c. consumer_cluster_id c = cluster_oid cl) (consumers reg)) s3"
      using s' True by (simp add: s3_def)
    then have "prefix (trace s3) (trace s')"
      using process_consumers_frame[of e reg cl
               "filter (\<lambda>c. consumer_cluster_id c = cluster_oid cl) (consumers reg)" s3] by simp
    moreover have "Ast_sorcery_retrieve_by_fields KAFKA_CONSUMER
           (Some (''cluster'', cluster_oid cl)) True \<in> set (trace s3)"
      by (simp add: s3_def emit_def)
    ultimately show ?thesis by (meson set_mono_prefix subsetD)
  next
    case False
    then show ?thesis using s' by (auto simp add: ast_log_def emit_def)
  qed
qed

lemma process_clusters_consumers_retrieved:
  "process_clusters e reg cls s = Done u s' \<Longrightarrow>
     \<forall>cl \<in> set cls. \<exists>ok. Ast_sorcery_retrieve_by_fields KAFKA_CONSUMER
          (Some (''cluster'', cluster_oid cl)) ok \<in> set (trace s')"
proof (induction cls arbitrary: s)
  case Nil
  then show ?case by simp
next
  case (Cons cl cls)
  from Cons.prems obtain u1 s1 where d1: "process_cluster e reg cl s = Done u1 s1"
    and d2: "process_clusters e reg cls s1 = Done u s'"
    by (auto split: outcome.splits)
  from process_cluster_consumers_retrieved[OF d1] obtain ok where
    ok: "Ast_sorcery_retrieve_by_fields KAFKA_CONSUMER
          (Some (''cluster'', cluster_oid cl)) ok \<in> set (trace s1)" by blast
  have "prefix (trace s1) (trace s')" using process_clusters_attempted[OF d2] by simp
  then have "Ast_sorcery_retrieve_by_fields KAFKA_CONSUMER
          (Some (''cluster'', cluster_oid cl)) ok \<in> set (trace s')"
    using ok by (meson set_mono_prefix subsetD)
  then show ?case using Cons.IH[OF d2] by auto
qed

section \<open>Theorems\<close>

text \<open>
  C1 (as amended). The module keeps no pool of connections keyed by cluster and role.
  Every call of \<^verbatim>\<open>new_kafka_producer\<close> that succeeds creates a connection of its
  own: a handle that was not live before, held by a new record whose reference count is
  exactly one, and one release of that record destroys the handle and frees the record.
  \<^verbatim>\<open>process_producer\<close> asks for at most one connection whatever the number of the
  producer's topics, and when it returns normally the live connections are those that
  were live before it ran.
\<close>

theorem new_kafka_producer_connection_of_its_own:
  assumes wf: "wf_live s"
  shows "(\<forall>producer s'. new_kafka_producer e cl p s = (Some producer, s') \<longrightarrow>
            (\<exists>rk. rk \<notin> set (live_rd_kafka s)
               \<and> live_rd_kafka s' = rk # live_rd_kafka s
               \<and> heap s' producer = Some \<lparr>refcount = 1, body = Kafka_producer (Some rk)\<rparr>
               \<and> rd_kafka_created (trace s') = rd_kafka_created (trace s) @ [rk]
               \<and> live_rd_kafka (ao2_ref producer (- 1) s') = live_rd_kafka s
               \<and> heap (ao2_ref producer (- 1) s') producer = None
               \<and> rd_kafka_destroyed (trace (ao2_ref producer (- 1) s'))
                    = rd_kafka_destroyed (trace s) @ [rk]))
       \<and> rd_kafka_attempted (trace (state_of (process_producer e reg cl p s)))
            \<le> Suc (rd_kafka_attempted (trace s))
       \<and> (\<forall>rc s'. process_producer e reg cl p s = Done rc s' \<longrightarrow>
            live_rd_kafka s' = live_rd_kafka s)"
proof (intro conjI allI impI)
  fix producer s'
  assume n: "new_kafka_producer e cl p s = (Some producer, s')"
  note sd = new_kafka_producer_SomeD[OF n]
  define rk where "rk = Suc (next_ptr s)"
  have fresh: "rk \<notin> set (live_rd_kafka s)" using wf unfolding wf_live_def rk_def by auto
  have h: "heap s' producer = Some \<lparr>refcount = 1, body = Kafka_producer (Some rk)\<rparr>"
    using sd unfolding rk_def by simp
  note r = ao2_ref_last_producer[OF h]
  show "\<exists>rk. rk \<notin> set (live_rd_kafka s)
               \<and> live_rd_kafka s' = rk # live_rd_kafka s
               \<and> heap s' producer = Some \<lparr>refcount = 1, body = Kafka_producer (Some rk)\<rparr>
               \<and> rd_kafka_created (trace s') = rd_kafka_created (trace s) @ [rk]
               \<and> live_rd_kafka (ao2_ref producer (- 1) s') = live_rd_kafka s
               \<and> heap (ao2_ref producer (- 1) s') producer = None
               \<and> rd_kafka_destroyed (trace (ao2_ref producer (- 1) s'))
                    = rd_kafka_destroyed (trace s) @ [rk]"
    using fresh h r sd(4,8,9) unfolding rk_def[symmetric]
    by (intro exI[of _ rk]) simp
next
  show "rd_kafka_attempted (trace (state_of (process_producer e reg cl p s)))
            \<le> Suc (rd_kafka_attempted (trace s))"
    by (rule process_producer_any(3))
next
  fix rc s'
  assume "process_producer e reg cl p s = Done rc s'"
  then show "live_rd_kafka s' = live_rd_kafka s" by (rule process_producer_done[OF wf])
qed

text \<open>The theorem at the first producer of the example configuration.\<close>

theorem new_kafka_producer_connection_of_its_own_witness:
  "wf_live state0
   \<and> new_kafka_producer env_ok cluster_C1 producer_P1 state0 = (Some 1, state_with_producer)
   \<and> live_rd_kafka state_with_producer = [2]
   \<and> heap state_with_producer 1 = Some \<lparr>refcount = 1, body = Kafka_producer (Some 2)\<rparr>
   \<and> live_rd_kafka (ao2_ref 1 (- 1) state_with_producer) = []
   \<and> heap (ao2_ref 1 (- 1) state_with_producer) 1 = None"
proof -
  have n: "new_kafka_producer env_ok cluster_C1 producer_P1 state0 = (Some 1, state_with_producer)"
    unfolding state_with_producer_def
    by (simp add: new_kafka_producer_def build_rdkafka_cluster_config_def prims exs)
  have l: "live_rd_kafka state0 = []" by (simp add: state0_def)
  from new_kafka_producer_connection_of_its_own[OF state0_wf, of env_ok cluster_C1 producer_P1] n l
  show ?thesis using state0_wf by (auto simp add: state_with_producer_eq)
qed

text \<open>
  C1 as stated fails: a second acquire for the same cluster and role, made while the
  first connection is live and before any release, does not return the first handle with
  its count raised. It creates a second connection, held by a second record: two handles
  of the one pair are live at once, each record has reference count one, and the first
  record has seen no change of its count.
\<close>

theorem second_acquire_creates_a_second_connection:
  "new_kafka_producer env_ok cluster_C1 producer_P1 state0 = (Some 1, state_with_producer)
   \<and> live_rd_kafka state_with_producer = [2]
   \<and> fst (new_kafka_producer env_ok cluster_C1 producer_P1 state_with_producer) = Some 3
   \<and> live_rd_kafka (snd (new_kafka_producer env_ok cluster_C1 producer_P1 state_with_producer))
        = [4, 2]
   \<and> heap (snd (new_kafka_producer env_ok cluster_C1 producer_P1 state_with_producer)) 1
        = Some \<lparr>refcount = 1, body = Kafka_producer (Some 2)\<rparr>
   \<and> heap (snd (new_kafka_producer env_ok cluster_C1 producer_P1 state_with_producer)) 3
        = Some \<lparr>refcount = 1, body = Kafka_producer (Some 4)\<rparr>
   \<and> rd_kafka_created
        (trace (snd (new_kafka_producer env_ok cluster_C1 producer_P1 state_with_producer)))
        = [2, 4]
   \<and> rd_kafka_destroyed
        (trace (snd (new_kafka_producer env_ok cluster_C1 producer_P1 state_with_producer)))
        = []
   \<and> ao2_refs 1
        (trace (snd (new_kafka_producer env_ok cluster_C1 producer_P1 state_with_producer)))
        = []"
  by (simp add: state_with_producer_eq new_kafka_producer_def build_rdkafka_cluster_config_def
        prims exs eval_nat_numeral)

text \<open>
  C2 (as amended). After a load over the configuration that holds exactly the cluster C1
  (brokers \<open>broker1:9092\<close>), the producer P1 of C1 and the topic T1 (topic \<open>orders\<close>) of
  P1, in which every call into the registry and the client library succeeds, exactly one
  producer connection for C1 has been created and it has been destroyed again before load
  returned, so no producer connection is live after the load; exactly one topic handle, for
  \<open>orders\<close> on that connection, has been created, and the module has not destroyed it.
\<close>

theorem load_creates_one_connection_and_destroys_it:
  assumes "ast_sorcery_open_ok e" and "\<forall>ty. ast_sorcery_apply_default_ok e ty"
      and "\<forall>ty. ast_sorcery_object_register_ok e ty"
      and "ast_sorcery_observer_add_ok e KAFKA_PRODUCER"
      and "\<forall>n. ast_sorcery_retrieve_ok e n" and "\<forall>n. rd_kafka_conf_new_ok e n"
      and "\<forall>config name val. rd_kafka_conf_set_err e config name val = None"
      and "\<forall>n. ao2_alloc_ok e n" and "\<forall>n ty config. rd_kafka_new_err e n ty config = None"
      and "\<forall>n. rd_kafka_topic_conf_new_ok e n"
      and "\<forall>n name. rd_kafka_topic_new_err e n name = None"
      and "\<forall>n. rd_kafka_produce_err e n = None"
      and "\<forall>n. rd_kafka_flush_resp e n = RD_KAFKA_RESP_ERR_NO_ERROR"
  shows "result_of (load_module e conf_C1_P1_T1 state0) = Some AST_MODULE_LOAD_SUCCESS
     \<and> rd_kafka_created (trace (state_of (load_module e conf_C1_P1_T1 state0))) = [2]
     \<and> rd_kafka_destroyed (trace (state_of (load_module e conf_C1_P1_T1 state0))) = [2]
     \<and> live_rd_kafka (state_of (load_module e conf_C1_P1_T1 state0)) = []
     \<and> rd_kafka_topic_created (trace (state_of (load_module e conf_C1_P1_T1 state0)))
          = [(2, ''orders'', 4)]
     \<and> rd_kafka_topic_destroyed (trace (state_of (load_module e conf_C1_P1_T1 state0))) = []
     \<and> live_rd_kafka_topic (state_of (load_module e conf_C1_P1_T1 state0)) = [4]"
  using assms
  by (simp add: run_defs prims exs result_of_def state_of_def eval_nat_numeral)

text \<open>The theorem in the environment in which every call succeeds.\<close>

theorem load_creates_one_connection_and_destroys_it_witness:
  "result_of (load_module env_ok conf_C1_P1_T1 state0) = Some AST_MODULE_LOAD_SUCCESS
     \<and> rd_kafka_created (trace (state_of (load_module env_ok conf_C1_P1_T1 state0))) = [2]
     \<and> rd_kafka_destroyed (trace (state_of (load_module env_ok conf_C1_P1_T1 state0))) = [2]
     \<and> live_rd_kafka (state_of (load_module env_ok conf_C1_P1_T1 state0)) = []
     \<and> rd_kafka_topic_created (trace (state_of (load_module env_ok conf_C1_P1_T1 state0)))
          = [(2, ''orders'', 4)]
     \<and> rd_kafka_topic_destroyed (trace (state_of (load_module env_ok conf_C1_P1_T1 state0))) = []
     \<and> live_rd_kafka_topic (state_of (load_module env_ok conf_C1_P1_T1 state0)) = [4]"
  by (rule load_creates_one_connection_and_destroys_it)
     (simp_all add: env_ok_def RD_KAFKA_RESP_ERR_NO_ERROR_def)

text \<open>
  C2 as stated fails: after that load the number of live producer connections is zero, not
  one; the one connection that was created has been destroyed.
\<close>

theorem no_producer_connection_is_live_after_load:
  "result_of (load_module env_ok conf_C1_P1_T1 state0) = Some AST_MODULE_LOAD_SUCCESS
   \<and> length (live_rd_kafka (state_of (load_module env_ok conf_C1_P1_T1 state0))) = 0
   \<and> rd_kafka_destroyed (trace (state_of (load_module env_ok conf_C1_P1_T1 state0))) = [2]"
  using state_loaded_facts unfolding state_loaded_def by simp

text \<open>
  C3 (as amended). \<^verbatim>\<open>build_rdkafka_cluster_config\<close> checks nothing itself. It hands the
  broker list, the security protocol, the SASL mechanism, the SASL user name and the SASL
  password to the library's \<^verbatim>\<open>rd_kafka_conf_set\<close>, in this order and as they are. For
  every cluster record whose broker list, security protocol or SASL mechanism the library
  rejects, resolution fails: the error line names the first field rejected and carries the
  library's message, the configuration object is destroyed, no later field is set, and
  \<^verbatim>\<open>new_kafka_producer\<close> then attempts no connection. When the library accepts every value,
  the configuration holds the five values as given.
\<close>

theorem build_rdkafka_cluster_config_fails_where_library_rejects:
  assumes "rd_kafka_conf_new_ok e (tick s)"
  shows "(rd_kafka_conf_set_err e [] ''metadata.broker.list'' (brokers cl) = Some errstr \<longrightarrow>
            build_rdkafka_cluster_config e cl s =
              (None, s\<lparr>trace := trace s @
                 [Rd_kafka_conf_new True,
                  Rd_kafka_conf_set [] ''metadata.broker.list'' (brokers cl) (Some errstr),
                  Ast_log LOG_ERROR
                    ''Kafka cluster %s: unable to set bootstrap brokers because %s\<newline>''
                    [cluster_oid cl, errstr],
                  Rd_kafka_conf_destroy []]\<rparr>))
       \<and> (rd_kafka_conf_set_err e [] ''metadata.broker.list'' (brokers cl) = None \<longrightarrow>
          rd_kafka_conf_set_err e [(''metadata.broker.list'', brokers cl)]
            ''security.protocol'' (security_protocol cl) = Some errstr \<longrightarrow>
            build_rdkafka_cluster_config e cl s =
              (None, s\<lparr>trace := trace s @
                 [Rd_kafka_conf_new True,
                  Rd_kafka_conf_set [] ''metadata.broker.list'' (brokers cl) None,
                  Rd_kafka_conf_set [(''metadata.broker.list'', brokers cl)]
                    ''security.protocol'' (security_protocol cl) (Some errstr),
                  Ast_log LOG_ERROR
                    ''Kafka cluster %s: unable to set security protocol because %s\<newline>''
                    [cluster_oid cl, errstr],
                  Rd_kafka_conf_destroy [(''metadata.broker.list'', brokers cl)]]\<rparr>))
       \<and> (rd_kafka_conf_set_err e [] ''metadata.broker.list'' (brokers cl) = None \<longrightarrow>
          rd_kafka_conf_set_err e [(''metadata.broker.list'', brokers cl)]
            ''security.protocol'' (security_protocol cl) = None \<longrightarrow>
          rd_kafka_conf_set_err e
            [(''metadata.broker.list'', brokers cl), (''security.protocol'', security_protocol cl)]
            ''sasl.mechanism'' (sasl_mechanism cl) = Some errstr \<longrightarrow>
            build_rdkafka_cluster_config e cl s =
              (None, s\<lparr>trace := trace s @
                 [Rd_kafka_conf_new True,
                  Rd_kafka_conf_set [] ''metadata.broker.list'' (brokers cl) None,
                  Rd_kafka_conf_set [(''metadata.broker.list'', brokers cl)]
                    ''security.protocol'' (security_protocol cl) None,
                  Rd_kafka_conf_set
                    [(''metadata.broker.list'', brokers cl),
                     (''security.protocol'', security_protocol cl)]
                    ''sasl.mechanism'' (sasl_mechanism cl) (Some errstr),
                  Ast_log LOG_ERROR
                    ''Kafka cluster %s: unable to set SASL mechanism because %s\<newline>''
                    [cluster_oid cl, errstr],
                  Rd_kafka_conf_destroy
                    [(''metadata.broker.list'', brokers cl),
                     (''security.protocol'', security_protocol cl)]]\<rparr>))
       \<and> ((\<forall>config name val. rd_kafka_conf_set_err e config name val = None) \<longrightarrow>
            fst (build_rdkafka_cluster_config e cl s) =
              Some [(''metadata.broker.list'', brokers cl),
                    (''security.protocol'', security_protocol cl),
                    (''sasl.mechanism'', sasl_mechanism cl),
                    (''sasl.username'', sasl_username cl),
                    (''sasl.password'', sasl_password cl)])
       \<and> (fst (build_rdkafka_cluster_config e cl s) = None \<longrightarrow>
            fst (new_kafka_producer e cl p s) = None
          \<and> rd_kafka_attempted (trace (snd (new_kafka_producer e cl p s)))
               = rd_kafka_attempted (trace s)
          \<and> live_rd_kafka (snd (new_kafka_producer e cl p s)) = live_rd_kafka s)"
proof (intro conjI impI)
  assume "fst (build_rdkafka_cluster_config e cl s) = None"
  note n = new_kafka_producer_build_fails[OF this, of p]
  have h: "live_rd_kafka (snd (build_rdkafka_cluster_config e cl s)) = live_rd_kafka s"
    by (subst build_frame(1)) simp
  show "fst (new_kafka_producer e cl p s) = None" using n by simp
  show "rd_kafka_attempted (trace (snd (new_kafka_producer e cl p s))) = rd_kafka_attempted (trace s)"
    using n build_frame(3)[of e cl s] by simp
  show "live_rd_kafka (snd (new_kafka_producer e cl p s)) = live_rd_kafka s"
    using n h by simp
qed (use assms in \<open>simp_all add: build_rdkafka_cluster_config_def prims\<close>)

text \<open>The theorem at a cluster whose security protocol the library refuses.\<close>

theorem build_rdkafka_cluster_config_fails_where_library_rejects_witness:
  "rd_kafka_conf_new_ok env_strict (tick state0)
   \<and> build_rdkafka_cluster_config env_strict cluster_bogus_protocol state0 =
       (None, state0\<lparr>trace :=
          [Rd_kafka_conf_new True,
           Rd_kafka_conf_set [] ''metadata.broker.list'' ''broker1:9092'' None,
           Rd_kafka_conf_set [(''metadata.broker.list'', ''broker1:9092'')]
             ''security.protocol'' ''bogus'' (Some ''Invalid value for configuration property''),
           Ast_log LOG_ERROR
             ''Kafka cluster %s: unable to set security protocol because %s\<newline>''
             [''C1'', ''Invalid value for configuration property''],
           Rd_kafka_conf_destroy [(''metadata.broker.list'', ''broker1:9092'')]]\<rparr>)
   \<and> fst (new_kafka_producer env_strict cluster_bogus_protocol producer_P1 state0) = None
   \<and> rd_kafka_attempted (trace (snd (new_kafka_producer env_strict cluster_bogus_protocol producer_P1 state0))) = 0"
proof -
  have h: "rd_kafka_conf_new_ok env_strict (tick state0)" by (simp add: exs exs2)
  have a: "rd_kafka_conf_set_err env_strict [] ''metadata.broker.list'' (brokers cluster_bogus_protocol) = None"
    "rd_kafka_conf_set_err env_strict [(''metadata.broker.list'', brokers cluster_bogus_protocol)]
            ''security.protocol'' (security_protocol cluster_bogus_protocol)
       = Some ''Invalid value for configuration property''"
    by (simp_all add: exs exs2)
  from build_rdkafka_cluster_config_fails_where_library_rejects[OF h,
       of cluster_bogus_protocol "''Invalid value for configuration property''" producer_P1] a h
  show ?thesis by (simp add: exs exs2)
qed

text \<open>
  C3 as stated fails: with a library that takes any broker list, a cluster with an empty
  broker list resolves and a connection is created for it; and a security protocol
  outside the fixed set reaches the library, which is what refuses it.
\<close>

theorem empty_broker_list_is_passed_to_the_library:
  "fst (new_kafka_producer env_strict cluster_no_brokers producer_P1 state0) = Some 1
   \<and> rd_kafka_created (trace (snd (new_kafka_producer env_strict cluster_no_brokers producer_P1 state0))) = [2]
   \<and> Rd_kafka_conf_set [] ''metadata.broker.list'' [] None
        \<in> set (trace (snd (new_kafka_producer env_strict cluster_no_brokers producer_P1 state0)))
   \<and> Rd_kafka_conf_set [(''metadata.broker.list'', ''broker1:9092'')] ''security.protocol'' ''bogus''
          (Some ''Invalid value for configuration property'')
        \<in> set (trace (snd (build_rdkafka_cluster_config env_strict cluster_bogus_protocol state0)))"
  by (simp add: new_kafka_producer_def build_rdkafka_cluster_config_def prims exs exs2 eval_nat_numeral)

text \<open>
  C4. The code at a bind whose topic handle cannot be created, on the connection made for
  P1. \<^verbatim>\<open>new_kafka_producer_topic\<close> answers \<^verbatim>\<open>NULL\<close> and leaves the connection record
  with the one reference it had, without a single \<^verbatim>\<open>ao2_ref\<close> on it: so far the claim
  holds. But no error propagates: \<^verbatim>\<open>process_producer_topic\<close> does not test what it was
  handed and reads \<^verbatim>\<open>topic->rd_kafka_topic\<close> through the \<^verbatim>\<open>NULL\<close>, a fault in the
  state the constructor left. Seen from \<^verbatim>\<open>process_producer\<close>, over the topics T0 and
  T1 of P1, the pass ends in that fault and T1 is never bound.
\<close>

theorem failed_bind_faults_without_release:
  "result_of (new_kafka_producer_topic env_topic_fails 1 topic_T0 state_with_producer) = Some None
   \<and> heap state_with_producer 1 = Some \<lparr>refcount = 1, body = Kafka_producer (Some 2)\<rparr>
   \<and> heap (state_of (new_kafka_producer_topic env_topic_fails 1 topic_T0 state_with_producer)) 1
        = Some \<lparr>refcount = 1, body = Kafka_producer (Some 2)\<rparr>
   \<and> ao2_refs 1 (trace (state_of (new_kafka_producer_topic env_topic_fails 1 topic_T0
        state_with_producer))) = []
   \<and> fault_of (process_producer_topic env_topic_fails 1 topic_T0 state_with_producer)
        = Some Null_dereference
   \<and> state_of (process_producer_topic env_topic_fails 1 topic_T0 state_with_producer)
        = state_of (new_kafka_producer_topic env_topic_fails 1 topic_T0 state_with_producer)
   \<and> fault_of (process_producer env_topic_fails (conf_C1_P1_T1\<lparr>topics := [topic_T0, topic_T1]\<rparr>)
        cluster_C1 producer_P1 state0) = Some Null_dereference
   \<and> rd_kafka_topic_created (trace (state_of (process_producer env_topic_fails
        (conf_C1_P1_T1\<lparr>topics := [topic_T0, topic_T1]\<rparr>) cluster_C1 producer_P1 state0))) = []"
  by (simp add: state_with_producer_eq process_producer_def process_producer_topic_def
        new_kafka_producer_topic_def new_kafka_producer_def build_rdkafka_cluster_config_def
        prims exs fault_of_def state_of_def result_of_def eval_nat_numeral)

text \<open>
  C5 (as amended). \<^verbatim>\<open>new_kafka_producer_topic\<close> takes the extra retain on the record
  right after it set the record as the opaque callback context of the topic configuration,
  and before it asks the library for the topic handle. When the library fails to create the
  topic handle, the topic configuration is destroyed, the extra retain and the original
  allocation are each released exactly once, the record is gone, and \<^verbatim>\<open>NULL\<close> is
  returned.
\<close>

theorem new_kafka_producer_topic_failure_releases_each_once:
  assumes "ao2_alloc_ok e (tick s)"
      and "rd_kafka_topic_conf_new_ok e (tick s + 1)"
      and "producer_rd_kafka producer s = Some rk" and "producer < next_ptr s"
      and "rd_kafka_topic_new_err e (tick s + 4) (topic t) = Some errstr"
  shows "new_kafka_producer_topic e producer t s =
      Done None (s\<lparr>heap := (heap s)(next_ptr s := None), next_ptr := Suc (next_ptr s),
         trace := trace s @
           [Ao2_alloc (Some (next_ptr s)), Rd_kafka_topic_conf_new True,
            Rd_kafka_topic_conf_set_opaque (next_ptr s), Ao2_ref (next_ptr s) 1,
            Rd_kafka_topic_new rk (topic t) None,
            Ast_log LOG_ERROR ''Unable to create producer topic '%s' because %s\<newline>''
              [topic_oid t, errstr],
            Rd_kafka_topic_conf_destroy, Ao2_ref (next_ptr s) (- 1), Ao2_ref (next_ptr s) (- 1)]\<rparr>)"
  using assms
  by (simp add: new_kafka_producer_topic_def prims eval_nat_numeral split: option.splits ao2_body.splits)

text \<open>The theorem at a topic with an empty broker-side name, which the library refuses.\<close>

theorem new_kafka_producer_topic_failure_releases_each_once_witness:
  "ao2_alloc_ok env_topic_fails (tick state_with_producer)
   \<and> rd_kafka_topic_conf_new_ok env_topic_fails (tick state_with_producer + 1)
   \<and> producer_rd_kafka 1 state_with_producer = Some 2
   \<and> (1::nat) < next_ptr state_with_producer
   \<and> rd_kafka_topic_new_err env_topic_fails (tick state_with_producer + 4) (topic topic_T0)
        = Some ''Invalid argument''
   \<and> result_of (new_kafka_producer_topic env_topic_fails 1 topic_T0 state_with_producer) = Some None
   \<and> ao2_refs 3 (trace (state_of (new_kafka_producer_topic env_topic_fails 1 topic_T0 state_with_producer)))
        = [1, - 1, - 1]
   \<and> heap (state_of (new_kafka_producer_topic env_topic_fails 1 topic_T0 state_with_producer)) 3 = None
   \<and> rd_kafka_topic_destroyed
        (trace (state_of (new_kafka_producer_topic env_topic_fails 1 topic_T0 state_with_producer))) = []"
proof -
  have h: "ao2_alloc_ok env_topic_fails (tick state_with_producer)"
    "rd_kafka_topic_conf_new_ok env_topic_fails (tick state_with_producer + 1)"
    "producer_rd_kafka 1 state_with_producer = Some 2"
    "(1::nat) < next_ptr state_with_producer"
    "rd_kafka_topic_new_err env_topic_fails (tick state_with_producer + 4) (topic topic_T0)
        = Some ''Invalid argument''"
    by (simp_all add: state_with_producer_eq exs tick_def producer_rd_kafka_def)
  have n: "next_ptr state_with_producer = 3" by (simp add: state_with_producer_eq)
  have a: "ao2_refs 3 (trace state_with_producer) = []"
    "rd_kafka_topic_destroyed (trace state_with_producer) = []"
    by (simp_all add: state_with_producer_eq)
  show ?thesis
    using h a
    unfolding new_kafka_producer_topic_failure_releases_each_once[OF h] n
    by (simp add: result_of_def state_of_def)
qed

text \<open>
  C5 as stated fails on the success path: the record is made the callback context before
  the retain is taken, and when the topic handle is created the constructor returns without
  releasing the extra retain, so the record leaves with two references.
\<close>

theorem successful_construction_keeps_the_extra_retain:
  "result_of (new_kafka_producer_topic env_ok 1 topic_T1 state_with_producer) = Some (Some 3)
   \<and> drop (length (trace state_with_producer)) (trace state_with_topic)
       = [Ao2_alloc (Some 3), Rd_kafka_topic_conf_new True, Rd_kafka_topic_conf_set_opaque 3,
          Ao2_ref 3 1, Rd_kafka_topic_new 2 ''orders'' (Some 4)]
   \<and> ao2_refs 3 (trace state_with_topic) = [1]
   \<and> heap state_with_topic 3 = Some \<lparr>refcount = 2, body = Kafka_producer_topic (Some 4)\<rparr>"
  unfolding state_with_topic_def
  by (simp add: state_with_producer_eq new_kafka_producer_topic_def prims exs result_of_def
       state_of_def eval_nat_numeral)

text \<open>
  C6 (as amended). A reload performs no connection creation and no connection destruction,
  whether the configuration has changed or not: \<^verbatim>\<open>reload_module\<close> does not run the
  reconciliation pass, it only asks the registry to reload.
\<close>

theorem reload_module_creates_and_destroys_no_connection:
  "rd_kafka_attempted (trace (state_of (reload_module file s))) = rd_kafka_attempted (trace s)
   \<and> rd_kafka_created (trace (state_of (reload_module file s))) = rd_kafka_created (trace s)
   \<and> rd_kafka_destroyed (trace (state_of (reload_module file s))) = rd_kafka_destroyed (trace s)"
  by (simp add: reload_module_def state_of_def emit_def split: option.splits)

text \<open>
  C6 as stated fails for the reconciliation pass itself: \<^verbatim>\<open>process_all_clusters\<close> run a
  second time over the unchanged configuration creates a second connection and destroys
  it; nothing is compared with the pass before.
\<close>

theorem second_reconciliation_pass_creates_a_connection_again:
  "rd_kafka_created (trace state_loaded) = [2]
   \<and> rd_kafka_destroyed (trace state_loaded) = [2]
   \<and> rd_kafka_created (trace (state_of (process_all_clusters env_ok state_loaded))) = [2, 6]
   \<and> rd_kafka_destroyed (trace (state_of (process_all_clusters env_ok state_loaded))) = [2, 6]"
  using state_loaded_facts
  by (simp add: process_all_clusters_def process_cluster_def process_producer_def
      process_producer_topic_def process_consumer_def new_kafka_producer_topic_def
      new_kafka_producer_def build_rdkafka_cluster_config_def prims exs state_of_def eval_nat_numeral)

text \<open>
  C7 (as amended). On a reload the driver neither builds nor tears down anything:
  \<^verbatim>\<open>reload_module\<close> only asks the registry to reload, and the heap, the live connections
  and the live topic handles are the same after it as before, so no teardown comes before
  a build. Connections do not outlive the load either: when \<^verbatim>\<open>load_module\<close> returns,
  the live connections are those that were live before it ran, whatever the configuration
  and whatever the library answered.
\<close>

theorem reload_module_builds_and_tears_down_nothing:
  "(\<forall>reg. kafka_sorcery s = Some reg \<longrightarrow>
      reload_module file s =
        Done 0 (s\<lparr>kafka_sorcery := Some file, trace := trace s @ [Ast_sorcery_reload]\<rparr>))
   \<and> same_resources s (state_of (reload_module file s))
   \<and> (\<forall>e file0 r s'. wf_live s \<longrightarrow> load_module e file0 s = Done r s' \<longrightarrow>
         live_rd_kafka s' = live_rd_kafka s)"
proof (intro conjI allI impI)
  fix reg assume "kafka_sorcery s = Some reg"
  then show "reload_module file s =
        Done 0 (s\<lparr>kafka_sorcery := Some file, trace := trace s @ [Ast_sorcery_reload]\<rparr>)"
    by (simp add: reload_module_def emit_def)
next
  show "same_resources s (state_of (reload_module file s))"
    by (simp add: reload_module_def state_of_def split: option.splits)
next
  fix e file0 r s'
  assume "wf_live s" and "load_module e file0 s = Done r s'"
  then show "live_rd_kafka s' = live_rd_kafka s" by (rule load_module_done)
qed

text \<open>The theorem at the load of the example configuration and the reload that follows it.\<close>

theorem reload_module_builds_and_tears_down_nothing_witness:
  "wf_live state0
   \<and> load_module env_ok conf_C1_P1_T1 state0 = Done AST_MODULE_LOAD_SUCCESS state_loaded
   \<and> live_rd_kafka state_loaded = live_rd_kafka state0
   \<and> kafka_sorcery state_loaded = Some conf_C1_P1_T1
   \<and> reload_module conf_C1_P1_T1 state_loaded =
        Done 0 (state_loaded\<lparr>kafka_sorcery := Some conf_C1_P1_T1,
                  trace := trace state_loaded @ [Ast_sorcery_reload]\<rparr>)"
proof -
  have l: "load_module env_ok conf_C1_P1_T1 state0 = Done AST_MODULE_LOAD_SUCCESS state_loaded"
    using state_loaded_facts(1) unfolding state_loaded_def
    by (cases "load_module env_ok conf_C1_P1_T1 state0") (simp_all add: result_of_def state_of_def)
  from reload_module_builds_and_tears_down_nothing[of state0]
       reload_module_builds_and_tears_down_nothing[of state_loaded conf_C1_P1_T1]
       l state0_wf state_loaded_facts(9)
  show ?thesis by blast
qed

text \<open>
  C7 as stated fails: the producer P1 of C1 persists unchanged across a reload, and it has
  no connection before the reload and none after it; the one connection created for it
  during the load was destroyed during the load.
\<close>

theorem unchanged_entity_has_no_connection_across_reload:
  "live_rd_kafka state_loaded = []
   \<and> result_of (reload_module conf_C1_P1_T1 state_loaded) = Some 0
   \<and> live_rd_kafka (state_of (reload_module conf_C1_P1_T1 state_loaded)) = []
   \<and> rd_kafka_created (trace (state_of (reload_module conf_C1_P1_T1 state_loaded))) = [2]
   \<and> rd_kafka_destroyed (trace (state_of (reload_module conf_C1_P1_T1 state_loaded))) = [2]"
  using state_loaded_facts
  by (simp add: reload_module_def result_of_def state_of_def emit_def)

text \<open>
  C8 (as amended). An error in the processing of one cluster, one producer or one consumer
  never aborts the processing of its siblings. A fault of \<^verbatim>\<open>load_module\<close>, of the pass
  over the clusters or of the pass over the producers of a cluster is always the fault of
  the bind of a topic: no failed retrieval, rejected configuration, failed allocation or
  failed connection stops a pass. \<^verbatim>\<open>process_producer\<close> returns 0 when its topics cannot
  be retrieved and -1 when it gets no connection; the value is ignored and the next
  producer is processed. A pass over clusters that runs to its end has retrieved the
  producers and the consumers of every cluster of the list, a pass over producers has
  retrieved the topics of every producer of the list, \<^verbatim>\<open>process_cluster\<close> goes on to the
  consumers whatever the producers' part did, and every consumer of a list has its
  configuration built. The failures that make \<^verbatim>\<open>load_module\<close> decline are the failure to
  open the registry, the failure to register one of the four object types, and the failure
  to register the producer observer; load declines exactly when one of them occurs.
\<close>

theorem sibling_entities_are_processed_and_load_declines_on_setup_failures:
  "(\<forall>f s'. load_module e conf s = Fault f s' \<longrightarrow>
       (\<exists>producer t s0. t \<in> set (topics conf)
           \<and> process_producer_topic e producer t s0 = Fault f s'))
   \<and> (\<forall>f s'. process_clusters e reg cls s = Fault f s' \<longrightarrow>
       (\<exists>producer t s0. t \<in> set (topics reg)
           \<and> process_producer_topic e producer t s0 = Fault f s'))
   \<and> (\<forall>f s'. process_producers e reg cl ps s = Fault f s' \<longrightarrow>
       (\<exists>producer t s0. t \<in> set (topics reg)
           \<and> process_producer_topic e producer t s0 = Fault f s'))
   \<and> (\<not> ast_sorcery_retrieve_ok e (tick s) \<longrightarrow>
         result_of (process_producer e reg cl p s) = Some 0)
   \<and> (ast_sorcery_retrieve_ok e (tick s)
        \<and> filter (\<lambda>t. producer_id t = producer_oid p) (topics reg) \<noteq> []
        \<and> fst (new_kafka_producer e cl p
                 (emit (Ast_sorcery_retrieve_by_fields KAFKA_TOPIC
                          (Some (''producer'', producer_oid p)) True) s)) = None \<longrightarrow>
         result_of (process_producer e reg cl p s) = Some (- 1))
   \<and> (\<forall>u s'. process_clusters e reg cls s = Done u s' \<longrightarrow>
       (\<forall>c \<in> set cls.
          (\<exists>ok. Ast_sorcery_retrieve_by_fields KAFKA_PRODUCER
             (Some (''cluster'', cluster_oid c)) ok \<in> set (trace s'))
          \<and> (\<exists>ok. Ast_sorcery_retrieve_by_fields KAFKA_CONSUMER
             (Some (''cluster'', cluster_oid c)) ok \<in> set (trace s'))))
   \<and> (\<forall>rc s1. process_producer e reg cl p s = Done rc s1 \<longrightarrow>
         process_producers e reg cl (p # ps) s = process_producers e reg cl ps s1)
   \<and> (\<forall>u s'. process_producers e reg cl ps s = Done u s' \<longrightarrow>
       (\<forall>q \<in> set ps. \<exists>ok. Ast_sorcery_retrieve_by_fields KAFKA_TOPIC
          (Some (''producer'', producer_oid q)) ok \<in> set (trace s')))
   \<and> (\<forall>u s'. process_cluster e reg cl s = Done u s' \<longrightarrow>
       (\<exists>s2. (if ast_sorcery_retrieve_ok e (tick s)
               then process_producers e reg cl
                      (filter (\<lambda>p. producer_cluster_id p = cluster_oid cl) (producers reg))
                      (emit (Ast_sorcery_retrieve_by_fields KAFKA_PRODUCER
                               (Some (''cluster'', cluster_oid cl)) True) s) = Done () s2
               else s2 = ast_log LOG_WARNING
                      ''Unable to retrieve producers from cluster %s\<newline>'' [cluster_oid cl]
                      (emit (Ast_sorcery_retrieve_by_fields KAFKA_PRODUCER
                               (Some (''cluster'', cluster_oid cl)) False) s))
          \<and> s' = (if ast_sorcery_retrieve_ok e (tick s2)
                  then process_consumers e reg cl
                         (filter (\<lambda>c. consumer_cluster_id c = cluster_oid cl) (consumers reg))
                         (emit (Ast_sorcery_retrieve_by_fields KAFKA_CONSUMER
                                  (Some (''cluster'', cluster_oid cl)) True) s2)
                  else ast_log LOG_WARNING
                         ''Unable to retrieve consumers from cluster %s\<newline>'' [cluster_oid cl]
                         (emit (Ast_sorcery_retrieve_by_fields KAFKA_CONSUMER
                                  (Some (''cluster'', cluster_oid cl)) False) s2))))
   \<and> rd_kafka_conf_new_calls (trace s) + length cs
        \<le> rd_kafka_conf_new_calls (trace (process_consumers e reg cl cs s))
   \<and> (result_of (load_module e conf s) = Some AST_MODULE_LOAD_DECLINE \<longleftrightarrow>
        (\<not> ast_sorcery_open_ok e
         \<or> \<not> ast_sorcery_object_register_ok e KAFKA_CLUSTER
         \<or> \<not> ast_sorcery_object_register_ok e KAFKA_TOPIC
         \<or> \<not> ast_sorcery_object_register_ok e KAFKA_PRODUCER
         \<or> \<not> ast_sorcery_observer_add_ok e KAFKA_PRODUCER
         \<or> \<not> ast_sorcery_object_register_ok e KAFKA_CONSUMER))"
proof -
  have c1: "\<forall>f s'. load_module e conf s = Fault f s' \<longrightarrow>
       (\<exists>producer t s0. t \<in> set (topics conf)
           \<and> process_producer_topic e producer t s0 = Fault f s')"
    using load_module_fault by blast
  have c2: "\<forall>f s'. process_clusters e reg cls s = Fault f s' \<longrightarrow>
       (\<exists>producer t s0. t \<in> set (topics reg)
           \<and> process_producer_topic e producer t s0 = Fault f s')"
    using process_clusters_fault by blast
  have c3: "\<forall>f s'. process_producers e reg cl ps s = Fault f s' \<longrightarrow>
       (\<exists>producer t s0. t \<in> set (topics reg)
           \<and> process_producer_topic e producer t s0 = Fault f s')"
    using process_producers_fault by blast
  have c4: "\<not> ast_sorcery_retrieve_ok e (tick s) \<longrightarrow>
         result_of (process_producer e reg cl p s) = Some 0"
    using process_producer_returns(1) by blast
  have c5: "ast_sorcery_retrieve_ok e (tick s)
        \<and> filter (\<lambda>t. producer_id t = producer_oid p) (topics reg) \<noteq> []
        \<and> fst (new_kafka_producer e cl p
                 (emit (Ast_sorcery_retrieve_by_fields KAFKA_TOPIC
                          (Some (''producer'', producer_oid p)) True) s)) = None \<longrightarrow>
         result_of (process_producer e reg cl p s) = Some (- 1)"
    using process_producer_returns(3) by blast
  have c6: "\<forall>u s'. process_clusters e reg cls s = Done u s' \<longrightarrow>
       (\<forall>c \<in> set cls.
          (\<exists>ok. Ast_sorcery_retrieve_by_fields KAFKA_PRODUCER
             (Some (''cluster'', cluster_oid c)) ok \<in> set (trace s'))
          \<and> (\<exists>ok. Ast_sorcery_retrieve_by_fields KAFKA_CONSUMER
             (Some (''cluster'', cluster_oid c)) ok \<in> set (trace s')))"
    using process_clusters_attempted process_clusters_consumers_retrieved by blast
  have c7: "\<forall>rc s1. process_producer e reg cl p s = Done rc s1 \<longrightarrow>
         process_producers e reg cl (p # ps) s = process_producers e reg cl ps s1"
    by simp
  have c8: "\<forall>u s'. process_producers e reg cl ps s = Done u s' \<longrightarrow>
       (\<forall>q \<in> set ps. \<exists>ok. Ast_sorcery_retrieve_by_fields KAFKA_TOPIC
          (Some (''producer'', producer_oid q)) ok \<in> set (trace s'))"
    using process_producers_attempted by blast
  have c9: "\<forall>u s'. process_cluster e reg cl s = Done u s' \<longrightarrow>
       (\<exists>s2. (if ast_sorcery_retrieve_ok e (tick s)
               then process_producers e reg cl
                      (filter (\<lambda>p. producer_cluster_id p = cluster_oid cl) (producers reg))
                      (emit (Ast_sorcery_retrieve_by_fields KAFKA_PRODUCER
                               (Some (''cluster'', cluster_oid cl)) True) s) = Done () s2
               else s2 = ast_log LOG_WARNING
                      ''Unable to retrieve producers from cluster %s\<newline>'' [cluster_oid cl]
                      (emit (Ast_sorcery_retrieve_by_fields KAFKA_PRODUCER
                               (Some (''cluster'', cluster_oid cl)) False) s))
          \<and> s' = (if ast_sorcery_retrieve_ok e (tick s2)
                  then process_consumers e reg cl
                         (filter (\<lambda>c. consumer_cluster_id c = cluster_oid cl) (consumers reg))
                         (emit (Ast_sorcery_retrieve_by_fields KAFKA_CONSUMER
                                  (Some (''cluster'', cluster_oid cl)) True) s2)
                  else ast_log LOG_WARNING
                         ''Unable to retrieve consumers from cluster %s\<newline>'' [cluster_oid cl]
                         (emit (Ast_sorcery_retrieve_by_fields KAFKA_CONSUMER
                                  (Some (''cluster'', cluster_oid cl)) False) s2)))"
    using process_cluster_consumers by (intro allI impI)
  have c10: "rd_kafka_conf_new_calls (trace s) + length cs
        \<le> rd_kafka_conf_new_calls (trace (process_consumers e reg cl cs s))"
    using process_consumers_frame[of e reg cl cs s] by simp
  have c11: "result_of (load_module e conf s) = Some AST_MODULE_LOAD_DECLINE \<longleftrightarrow>
        (\<not> ast_sorcery_open_ok e
         \<or> \<not> ast_sorcery_object_register_ok e KAFKA_CLUSTER
         \<or> \<not> ast_sorcery_object_register_ok e KAFKA_TOPIC
         \<or> \<not> ast_sorcery_object_register_ok e KAFKA_PRODUCER
         \<or> \<not> ast_sorcery_observer_add_ok e KAFKA_PRODUCER
         \<or> \<not> ast_sorcery_object_register_ok e KAFKA_CONSUMER)"
    by (rule load_module_decline_iff)
  from c1 c2 c3 c4 c5 c6 c7 c8 c9 c10 c11 show ?thesis by (intro conjI)
qed

text \<open>
  The theorem at two producers of which the first gets no connection:
  \<^verbatim>\<open>process_producer\<close> returns -1 for the first, the second is processed and its topic is
  bound. And at a load in which every call succeeds, which does not decline.
\<close>

theorem sibling_entities_are_processed_and_load_declines_on_setup_failures_witness:
  "result_of (process_producer env_first_connection_fails conf_two_producers cluster_C1 producer_P1 state0)
     = Some (- 1)
   \<and> result_of (process_producers env_first_connection_fails conf_two_producers cluster_C1
       [producer_P1, producer_P2] state0) = Some ()
   \<and> (\<exists>ok. Ast_sorcery_retrieve_by_fields KAFKA_TOPIC (Some (''producer'', ''P2'')) ok
         \<in> set (trace (state_of (process_producers env_first_connection_fails conf_two_producers
              cluster_C1 [producer_P1, producer_P2] state0))))
   \<and> rd_kafka_topic_created (trace (state_of (process_producers env_first_connection_fails
       conf_two_producers cluster_C1 [producer_P1, producer_P2] state0))) = [(3, ''events'', 5)]
   \<and> result_of (load_module env_ok conf_C1_P1_T1 state0) \<noteq> Some AST_MODULE_LOAD_DECLINE"
proof -
  note r = first_connection_fails_run
  note t = sibling_entities_are_processed_and_load_declines_on_setup_failures[where e=env_first_connection_fails and reg=conf_two_producers and s=state0
          and cl=cluster_C1 and p=producer_P1 and ps="[producer_P1, producer_P2]"]
  have h: "ast_sorcery_retrieve_ok env_first_connection_fails (tick state0)"
     "filter (\<lambda>t. producer_id t = producer_oid producer_P1) (topics conf_two_producers) \<noteq> []"
     "fst (new_kafka_producer env_first_connection_fails cluster_C1 producer_P1
                 (emit (Ast_sorcery_retrieve_by_fields KAFKA_TOPIC
                          (Some (''producer'', producer_oid producer_P1)) True) state0)) = None"
    by (simp_all add: new_kafka_producer_def build_rdkafka_cluster_config_def prims exs exs3
          eval_nat_numeral)
  have e: "result_of (process_producer env_first_connection_fails conf_two_producers cluster_C1
             producer_P1 state0) = Some (- 1)"
    using t h by blast
  have a: "\<forall>q \<in> set [producer_P1, producer_P2]. \<exists>ok. Ast_sorcery_retrieve_by_fields KAFKA_TOPIC
          (Some (''producer'', producer_oid q)) ok
         \<in> set (trace (state_of (process_producers env_first_connection_fails conf_two_producers
              cluster_C1 [producer_P1, producer_P2] state0)))"
    using t r(2) by blast
  have b: "result_of (load_module env_ok conf_C1_P1_T1 state0) \<noteq> Some AST_MODULE_LOAD_DECLINE"
    using sibling_entities_are_processed_and_load_declines_on_setup_failures[where e=env_ok and conf=conf_C1_P1_T1 and s=state0]
    by (simp add: env_ok_def)
  have c: "producer_oid producer_P2 = ''P2''" by (simp add: producer_P2_def)
  have d: "result_of (process_producers env_first_connection_fails conf_two_producers cluster_C1
       [producer_P1, producer_P2] state0) = Some ()"
    by (subst r(2)) (simp add: result_of_def)
  show ?thesis using a b c d e r(3) by simp
qed

text \<open>
  C8 as stated fails: a third failure is fatal to module load. When the registry opens and
  every object type registers but the producer observer is refused, load declines, and no
  cluster is processed.
\<close>

theorem load_declines_when_the_observer_is_refused:
  "ast_sorcery_open_ok env_observer_fails
   \<and> ast_sorcery_object_register_ok env_observer_fails KAFKA_CLUSTER
   \<and> ast_sorcery_object_register_ok env_observer_fails KAFKA_TOPIC
   \<and> ast_sorcery_object_register_ok env_observer_fails KAFKA_PRODUCER
   \<and> ast_sorcery_object_register_ok env_observer_fails KAFKA_CONSUMER
   \<and> result_of (load_module env_observer_fails conf_C1_P1_T1 state0) = Some AST_MODULE_LOAD_DECLINE
   \<and> kafka_sorcery (state_of (load_module env_observer_fails conf_C1_P1_T1 state0)) = None
   \<and> rd_kafka_conf_new_calls (trace (state_of (load_module env_observer_fails conf_C1_P1_T1 state0))) = 0"
  by (simp add: load_module_def sorcery_object_register_def register_cluster_fields_def
      register_topic_fields_def ast_sorcery_object_field_register_def ast_sorcery_unref_def
      decline_def prims exs exs3 result_of_def state_of_def)

text \<open>
  C9. Whenever \<^verbatim>\<open>new_kafka_producer_topic\<close> yields a topic handle, the bind
  \<^verbatim>\<open>process_producer_topic\<close> goes on to produce the four bytes \<open>test\<close> to that handle
  with the partition left unassigned (\<^verbatim>\<open>RD_KAFKA_PARTITION_UA\<close>), and then flushes the
  producer connection with a timeout of 10000 milliseconds, before it drops its reference to
  the topic record. The trace of the bind after the handle was made is exactly: the produce
  call, the error line when producing failed, the flush call, the error line the code writes
  when the flush answers \<^verbatim>\<open>RD_KAFKA_RESP_ERR_NO_ERROR\<close>, and the release of the record.
\<close>

theorem process_producer_topic_produces_test_and_flushes:
  assumes d: "new_kafka_producer_topic e producer t s = Done (Some tp) s1"
  shows "\<exists>rkt rk. topic_rd_kafka_topic tp s1 = Some rkt \<and> producer_rd_kafka producer s1 = Some rk
     \<and> result_of (process_producer_topic e producer t s) = Some ()
     \<and> trace (state_of (process_producer_topic e producer t s)) =
         trace s1
         @ [Rd_kafka_produce rkt RD_KAFKA_PARTITION_UA RD_KAFKA_MSG_F_COPY ''test'' 4
              (rd_kafka_produce_err e (tick s1) = None)]
         @ (case rd_kafka_produce_err e (tick s1) of
              None \<Rightarrow> []
            | Some errstr \<Rightarrow>
                [Ast_log LOG_ERROR ''Unable to produce message producer topic '%s' because %s\<newline>''
                   [topic_oid t, errstr]])
         @ [Rd_kafka_flush rk 10000
              (rd_kafka_flush_resp e
                 (case rd_kafka_produce_err e (tick s1) of
                    None \<Rightarrow> tick s1 + 1 | Some errstr \<Rightarrow> tick s1 + 2))]
         @ (if RD_KAFKA_RESP_ERR_NO_ERROR =
                 rd_kafka_flush_resp e
                   (case rd_kafka_produce_err e (tick s1) of
                      None \<Rightarrow> tick s1 + 1 | Some errstr \<Rightarrow> tick s1 + 2)
            then [Ast_log LOG_ERROR ''Kafka producer topic %s got error: %s\<newline>''
                    [topic_oid t, rd_kafka_err2str e
                       (rd_kafka_flush_resp e
                          (case rd_kafka_produce_err e (tick s1) of
                             None \<Rightarrow> tick s1 + 1 | Some errstr \<Rightarrow> tick s1 + 2))]]
            else [])
         @ [Ao2_ref tp (- 1)]"
proof -
  note c = new_kafka_producer_topic_SomeD[OF d]
  from c obtain rk where rk: "producer_rd_kafka producer s = Some rk" by blast
  note eq = new_kafka_producer_topic_success[where e=e and s=s and producer=producer and rk=rk and t=t]
  have eq': "new_kafka_producer_topic e producer t s =
     Done (Some (next_ptr s))
       (s\<lparr>heap := (heap s)(next_ptr s \<mapsto>
               \<lparr>refcount = 2, body = Kafka_producer_topic (Some (Suc (next_ptr s)))\<rparr>),
          next_ptr := Suc (Suc (next_ptr s)),
          live_rd_kafka_topic := Suc (next_ptr s) # live_rd_kafka_topic s,
          trace := trace s @
            [Ao2_alloc (Some (next_ptr s)), Rd_kafka_topic_conf_new True,
             Rd_kafka_topic_conf_set_opaque (next_ptr s), Ao2_ref (next_ptr s) 1,
             Rd_kafka_topic_new rk (topic t) (Some (Suc (next_ptr s)))]\<rparr>)"
    using eq c rk by simp
  have tp: "tp = next_ptr s" and s1: "s1 = s\<lparr>heap := (heap s)(next_ptr s \<mapsto>
               \<lparr>refcount = 2, body = Kafka_producer_topic (Some (Suc (next_ptr s)))\<rparr>),
          next_ptr := Suc (Suc (next_ptr s)),
          live_rd_kafka_topic := Suc (next_ptr s) # live_rd_kafka_topic s,
          trace := trace s @
            [Ao2_alloc (Some (next_ptr s)), Rd_kafka_topic_conf_new True,
             Rd_kafka_topic_conf_set_opaque (next_ptr s), Ao2_ref (next_ptr s) 1,
             Rd_kafka_topic_new rk (topic t) (Some (Suc (next_ptr s)))]\<rparr>"
    using d unfolding eq' by auto
  have h1: "topic_rd_kafka_topic tp s1 = Some (Suc (next_ptr s))"
    unfolding tp s1 by (simp add: topic_rd_kafka_topic_def)
  have h2: "producer_rd_kafka producer s1 = Some rk"
    using rk c unfolding s1 by (simp add: producer_rd_kafka_def)
  have pne: "producer \<noteq> tp" using c tp by simp
  have hp: "heap s producer \<noteq> None" using rk
    by (auto simp add: producer_rd_kafka_def split: option.splits)
  have run: "result_of (process_producer_topic e producer t s) = Some ()
     \<and> trace (state_of (process_producer_topic e producer t s)) =
         trace s1
         @ [Rd_kafka_produce (Suc (next_ptr s)) RD_KAFKA_PARTITION_UA RD_KAFKA_MSG_F_COPY ''test'' 4
              (rd_kafka_produce_err e (tick s1) = None)]
         @ (case rd_kafka_produce_err e (tick s1) of
              None \<Rightarrow> []
            | Some errstr \<Rightarrow>
                [Ast_log LOG_ERROR ''Unable to produce message producer topic '%s' because %s\<newline>''
                   [topic_oid t, errstr]])
         @ [Rd_kafka_flush rk 10000
              (rd_kafka_flush_resp e
                 (case rd_kafka_produce_err e (tick s1) of
                    None \<Rightarrow> tick s1 + 1 | Some errstr \<Rightarrow> tick s1 + 2))]
         @ (if RD_KAFKA_RESP_ERR_NO_ERROR =
                 rd_kafka_flush_resp e
                   (case rd_kafka_produce_err e (tick s1) of
                      None \<Rightarrow> tick s1 + 1 | Some errstr \<Rightarrow> tick s1 + 2)
            then [Ast_log LOG_ERROR ''Kafka producer topic %s got error: %s\<newline>''
                    [topic_oid t, rd_kafka_err2str e
                       (rd_kafka_flush_resp e
                          (case rd_kafka_produce_err e (tick s1) of
                             None \<Rightarrow> tick s1 + 1 | Some errstr \<Rightarrow> tick s1 + 2))]]
            else [])
         @ [Ao2_ref tp (- 1)]"
    using rk pne hp unfolding process_producer_topic_def d unfolding tp s1
    by (simp add: result_of_def state_of_def rd_kafka_produce_def rd_kafka_flush_def ast_log_def
       emit_def tick_def ao2_cleanup_def ao2_ref_def producer_rd_kafka_def topic_rd_kafka_topic_def
       split: option.splits)
  show ?thesis
    apply (rule exI[of _ "Suc (next_ptr s)"])
    apply (rule exI[of _ rk])
    apply (rule conjI[OF h1])
    apply (rule conjI[OF h2])
    apply (rule run)
    done
qed

text \<open>The theorem at the bind of T1 on the connection made for P1 (C9).\<close>

theorem process_producer_topic_produces_test_and_flushes_witness:
  "new_kafka_producer_topic env_ok 1 topic_T1 state_with_producer = Done (Some 3) state_with_topic
   \<and> drop (length (trace state_with_topic))
        (trace (state_of (process_producer_topic env_ok 1 topic_T1 state_with_producer)))
      = [Rd_kafka_produce 4 (- 1) 2 ''test'' 4 True, Rd_kafka_flush 2 10000 0,
         Ast_log LOG_ERROR ''Kafka producer topic %s got error: %s\<newline>'' [''T1'', ''Success''],
         Ao2_ref 3 (- 1)]"
proof -
  have h: "new_kafka_producer_topic env_ok 1 topic_T1 state_with_producer = Done (Some 3) state_with_topic"
    by (rule state_with_topic_run)
  have t: "topic_rd_kafka_topic 3 state_with_topic = Some 4"
    "producer_rd_kafka 1 state_with_topic = Some 2"
    unfolding state_with_topic_def
    by (simp_all add: state_with_producer_eq new_kafka_producer_topic_def prims exs state_of_def eval_nat_numeral)
  from process_producer_topic_produces_test_and_flushes[OF h] t h
  show ?thesis
    by (auto simp add: exs)
qed

text \<open>
  C10. The configuration built from a cluster record, and every effect of building it,
  is the same whatever the record's \<open>port\<close>, \<open>ssl\<close> and \<open>client_id\<close> are: two
  records that agree on the brokers, the security protocol, the SASL mechanism, the SASL
  user name and the SASL password (and name the same cluster) build identical
  configurations.
\<close>

theorem build_rdkafka_cluster_config_ignores_port_ssl_client_id:
  "build_rdkafka_cluster_config e (cl\<lparr>port := p, ssl := b, client_id := i\<rparr>) s
     = build_rdkafka_cluster_config e cl s"
  by (simp add: build_rdkafka_cluster_config_def cong: prod.case_cong option.case_cong sum.case_cong)

end
